theory Spec2Isabelle
  imports Main
begin

section \<open>Data model\<close>

text \<open>
  The views of \<^verbatim>\<open>formspree/forms/views.py\<close> are embedded as functions over an explicit
  world: the committed \<^verbatim>\<open>Form\<close> rows, the mails handed to the mail transport, the
  payloads stashed for replay, the archived submissions and the trace of calls made to
  the collaborators (captcha verification, nonce store, Delivery Engine).
  Helpers imported from modules outside \<^verbatim>\<open>views.py\<close> are either parameters collected
  in the record \<open>env\<close> or, where a property depends on what they compute, definitions
  modelled from the specification and marked as such.
\<close>

type_synonym payload = "(string \<times> string) list"
  \<comment> \<open>a Python dict with insertion order: keys unique, values as text\<close>

record form =
  form_id :: "nat option"          \<comment> \<open>primary key; \<open>None\<close> until the row is inserted\<close>
  hash :: "string option"
  email :: string
  host :: "string option"          \<comment> \<open>nullable until the first accepted submission\<close>
  sitewide :: bool
  confirmed :: bool
  confirm_sent :: bool
  disabled :: bool
  uses_ajax :: "bool option"       \<comment> \<open>tri-state: unset, true, false\<close>
  captcha_disabled :: bool

datatype mail =
  ConfirmationMail string string              \<comment> \<open>recipient, confirmation nonce\<close>
| UnsubscribeMail string string string        \<comment> \<open>recipient, subject, unconfirm url\<close>

datatype call =
  VerifyCaptcha
| TempStoreHostname "string option" "string option"
| FormSend
| SendConfirmation

record world =
  db :: "form list"
  outbox :: "mail list"
  first_submissions :: "(string \<times> payload) list"   \<comment> \<open>confirmation nonce, stored payload\<close>
  submissions :: "(nat \<times> payload) list"
  calls :: "call list"

record request =
  http_method :: string
  wants_json :: bool                \<comment> \<open>the value of \<^verbatim>\<open>request_wants_json()\<close>\<close>
  form_items :: payload             \<comment> \<open>\<^verbatim>\<open>request.form\<close>, empty when the body is not form-encoded\<close>
  json :: "payload option"          \<comment> \<open>\<^verbatim>\<open>request.get_json()\<close>\<close>
  referrer :: "string option"
  path :: string
  user_agent_browser :: "string option"
  session_unconfirming :: "string option"   \<comment> \<open>\<^verbatim>\<open>session.get('unconfirming')\<close>\<close>
  form_ids :: "nat list"            \<comment> \<open>\<^verbatim>\<open>request.form.getlist('form_ids')\<close>, as the keys they denote\<close>

text \<open>
  Modelled from the spec: the outcomes of the Delivery Engine (the \<^verbatim>\<open>STATUS_*\<close> codes of
  \<^verbatim>\<open>Form\<close> in \<^verbatim>\<open>models.py\<close>, which is not part of the sources at hand), one
  constructor per row of the outcome table, each carrying the fields the view reads from
  the status dict. \<open>OTHER_STATUS\<close> stands for any code outside the table.
\<close>

datatype send_status =
  EMAIL_SENT string                 \<comment> \<open>\<^verbatim>\<open>status['next']\<close>\<close>
| NO_EMAIL string
| EMAIL_EMPTY
| CONFIRMATION_SENT
| CONFIRMATION_DUPLICATED
| OVERLIMIT
| REPLYTO_ERROR string string       \<comment> \<open>\<^verbatim>\<open>status['address']\<close>, \<^verbatim>\<open>status['referrer']\<close>\<close>
| OTHER_STATUS string

datatype temp_hostname = NoNonce | InvalidStored string | Stored string "string option"
  \<comment> \<open>\<^verbatim>\<open>get_temp_hostname\<close>: KeyError, ValueError, or the stored (host, referrer)\<close>

datatype body =
  Json "(string \<times> string) list"
| Template string "(string \<times> string) list"
| CaptchaTemplate string payload "string list" string "string option"
    \<comment> \<open>template, data, sorted_keys, action, lang\<close>
| ConfirmationSentTemplate string string bool
    \<comment> \<open>email, host, resend\<close>
| Redirect string
| Plain string

record response =
  status_code :: nat
  body :: body

datatype exn = AttributeError

text \<open>
  The settings and the helpers of other modules that the views call and whose result the
  properties below do not depend on: each is a parameter. \<open>form_send\<close> is the Delivery
  Engine, \<^verbatim>\<open>Form.send\<close>, a transformer of the world that returns a status.
  \<open>referrer_to_path\<close> returns the empty string where the helper returns a false value.
  \<open>unicode_lower\<close> is Python's \<^verbatim>\<open>str.lower\<close> on text that has characters outside
  ASCII, where it follows the Unicode case mapping.
\<close>

record env =
  TESTING :: bool
  SERVICE_URL :: string
  SERVICE_NAME :: string
  API_ROOT :: string
  CONTACT_EMAIL :: string
  DEFAULT_SENDER :: string
  UPGRADED_PLAN_NAME :: string
  KEYS_EXCLUDED_FROM_EMAIL :: "string list"
  IS_VALID_EMAIL :: "string \<Rightarrow> bool"
  url_domain :: "string \<Rightarrow> string"
  urljoin :: "string \<Rightarrow> string \<Rightarrow> string"
  unicode_lower :: "string \<Rightarrow> string"
  referrer_to_path :: "string option \<Rightarrow> string"
  http_form_to_dict :: "payload \<Rightarrow> payload \<times> string list"
  get_temp_hostname :: "string \<Rightarrow> temp_hostname"
  temp_store_hostname :: "string option \<Rightarrow> string option \<Rightarrow> string"
  verify_captcha :: "payload \<Rightarrow> request \<Rightarrow> bool"
  HASH :: "string \<Rightarrow> string \<Rightarrow> string"
  decode_hashid :: "string \<Rightarrow> nat option"
  has_feature :: "form \<Rightarrow> string \<Rightarrow> bool"
  template_exists :: "string \<Rightarrow> bool"
  confirmation_nonce :: "form \<Rightarrow> string"
  unconfirm_url :: "form \<Rightarrow> string"
  json_dumps :: "send_status \<Rightarrow> string"
  form_send :: "form \<Rightarrow> payload \<Rightarrow> string list \<Rightarrow> string option \<Rightarrow> world \<Rightarrow> send_status \<times> world"

section \<open>Python strings and dicts\<close>

fun startswith :: "string \<Rightarrow> string \<Rightarrow> bool" where
  "startswith s [] = True"
| "startswith [] (p # ps) = False"
| "startswith (c # s) (p # ps) = (c = p \<and> startswith s ps)"

fun contains :: "string \<Rightarrow> string \<Rightarrow> bool" where
  "contains [] sub = startswith [] sub"
| "contains (c # s) sub = (startswith (c # s) sub \<or> contains s sub)"
  \<comment> \<open>\<^verbatim>\<open>sub in s\<close>\<close>

definition rstrip_slash :: "string \<Rightarrow> string" where
  "rstrip_slash s = rev (dropWhile (\<lambda>c. c = CHR ''/'') (rev s))"
  \<comment> \<open>\<^verbatim>\<open>s.rstrip('/')\<close>\<close>

definition lower_char :: "char \<Rightarrow> char" where
  "lower_char c =
     (case map_of (zip ''ABCDEFGHIJKLMNOPQRSTUVWXYZ'' ''abcdefghijklmnopqrstuvwxyz'') c of
        Some l \<Rightarrow> l
      | None \<Rightarrow> c)"

definition is_ascii :: "char \<Rightarrow> bool" where
  "is_ascii c = (\<not> digit7 c)"

definition str_lower :: "env \<Rightarrow> string \<Rightarrow> string" where
  "str_lower env s = (if list_all is_ascii s then map lower_char s else unicode_lower env s)"
  \<comment> \<open>\<^verbatim>\<open>s.lower()\<close>: on ASCII text the letters A to Z are lowered and nothing else
      changes; any other text is lowered by the Unicode mapping of the library\<close>

fun dict_set :: "payload \<Rightarrow> string \<Rightarrow> string \<Rightarrow> payload" where
  "dict_set [] k v = [(k, v)]"
| "dict_set ((k', v') # d) k v = (if k' = k then (k, v) # d else (k', v') # dict_set d k v)"
  \<comment> \<open>\<^verbatim>\<open>d[k] = v\<close>: an existing key keeps its place, a new one goes last\<close>

definition truthy :: "string option \<Rightarrow> bool" where
  "truthy s = (case s of None \<Rightarrow> False | Some t \<Rightarrow> t \<noteq> [])"
  \<comment> \<open>Python truth of a value that is \<^verbatim>\<open>None\<close> or a string\<close>

definition str_of :: "string option \<Rightarrow> string" where
  "str_of s = (case s of None \<Rightarrow> ''None'' | Some t \<Rightarrow> t)"
  \<comment> \<open>the text \<^verbatim>\<open>%s\<close> and \<^verbatim>\<open>{}\<close> print for a value that is \<^verbatim>\<open>None\<close> or a string\<close>

section \<open>Helpers outside the view module\<close>

text \<open>
  Modelled from the spec: \<^verbatim>\<open>remove_www\<close> of \<^verbatim>\<open>forms/helpers.py\<close>, which is not
  part of the sources at hand. The Trust Rule removes "a leading \<^verbatim>\<open>www.\<close>" from a host.
\<close>

definition remove_www :: "string \<Rightarrow> string" where
  "remove_www h = (if startswith h ''www.'' then drop 4 h else h)"

text \<open>
  Modelled from the spec: \<^verbatim>\<open>jsonerror\<close> of \<^verbatim>\<open>formspree/utils.py\<close>, not part of the
  sources at hand: the structured error object of a JSON-preferring caller, answered
  with the status code passed first. \<open>jsonify\<close> is Flask's: the same object with the
  default status 200.
\<close>

definition jsonerror :: "nat \<Rightarrow> (string \<times> string) list \<Rightarrow> response" where
  "jsonerror code d = \<lparr>status_code = code, body = Json d\<rparr>"

definition jsonify :: "(string \<times> string) list \<Rightarrow> response" where
  "jsonify d = \<lparr>status_code = 200, body = Json d\<rparr>"

definition render_template :: "string \<Rightarrow> (string \<times> string) list \<Rightarrow> nat \<Rightarrow> response" where
  "render_template name kwargs code = \<lparr>status_code = code, body = Template name kwargs\<rparr>"
  \<comment> \<open>the tuple \<^verbatim>\<open>(render_template(name, **kwargs), code)\<close> a view returns\<close>

subsection \<open>The persistent store\<close>

definition query_get :: "form list \<Rightarrow> nat \<Rightarrow> form option" where
  "query_get rows i = find (\<lambda>f. form_id f = Some i) rows"
  \<comment> \<open>\<^verbatim>\<open>Form.query.get(i)\<close>\<close>

definition filter_by_hash :: "form list \<Rightarrow> string \<Rightarrow> form option" where
  "filter_by_hash rows h = find (\<lambda>f. hash f = Some h) rows"
  \<comment> \<open>\<^verbatim>\<open>Form.query.filter_by(hash=h).first()\<close>\<close>

definition fresh_id :: "form list \<Rightarrow> nat" where
  "fresh_id rows = Suc (fold max (map (\<lambda>f. case form_id f of None \<Rightarrow> 0 | Some i \<Rightarrow> i) rows) 0)"

definition put_row :: "form \<Rightarrow> form list \<Rightarrow> form list" where
  "put_row f rows = map (\<lambda>g. if form_id g = form_id f then f else g) rows"

definition db_commit :: "form \<Rightarrow> world \<Rightarrow> form \<times> world" where
  "db_commit f w =
     (case form_id f of
        Some i \<Rightarrow> (f, w\<lparr>db := put_row f (db w)\<rparr>)
      | None \<Rightarrow>
          (let f' = f\<lparr>form_id := Some (fresh_id (db w))\<rparr>
           in (f', w\<lparr>db := db w @ [f']\<rparr>)))"
  \<comment> \<open>\<^verbatim>\<open>DB.session.add(f); DB.session.commit()\<close>: an existing row is updated, a new
      object is inserted under a fresh key\<close>

definition log_call :: "call \<Rightarrow> world \<Rightarrow> world" where
  "log_call c w = w\<lparr>calls := calls w @ [c]\<rparr>"

text \<open>
  Modelled from the spec: \<^verbatim>\<open>Form.get_with_hashid\<close> of \<^verbatim>\<open>models.py\<close>, not part of the
  sources at hand. The opaque hash-id is derived from the numeric id and is reversible by
  the system; a reference that decodes to no row finds nothing.
\<close>

definition get_with_hashid :: "env \<Rightarrow> form list \<Rightarrow> string \<Rightarrow> form option" where
  "get_with_hashid env rows hashid =
     (case decode_hashid env hashid of None \<Rightarrow> None | Some i \<Rightarrow> query_get rows i)"

text \<open>
  Modelled from the spec: the constructor \<^verbatim>\<open>Form(email, host)\<close> of \<^verbatim>\<open>models.py\<close>, not
  part of the sources at hand: a new unconfirmed form bound to (email, host), whose hash
  is the deterministic function of that pair.
\<close>

definition Form :: "env \<Rightarrow> string \<Rightarrow> string \<Rightarrow> form" where
  "Form env e h =
     \<lparr>form_id = None, hash = Some (HASH env e h), email = e, host = Some h,
      sitewide = False, confirmed = False, confirm_sent = False, disabled = False,
      uses_ajax = None, captcha_disabled = False\<rparr>"

text \<open>
  Modelled from the spec: \<^verbatim>\<open>assign_ajax\<close> of \<^verbatim>\<open>forms/helpers.py\<close>, not part of the
  sources at hand. The caller's delivery-channel preference is recorded onto the form
  the first time it is observed and persists thereafter.
\<close>

definition assign_ajax :: "form \<Rightarrow> bool \<Rightarrow> world \<Rightarrow> form \<times> world" where
  "assign_ajax f sent_using_ajax w =
     (if uses_ajax f = None then db_commit (f\<lparr>uses_ajax := Some sent_using_ajax\<rparr>) w
      else (f, w))"

text \<open>
  Modelled from the spec: \<^verbatim>\<open>Form.send_confirmation\<close> of \<^verbatim>\<open>models.py\<close>, not part of
  the sources at hand. A form to which a confirmation was already sent answers
  CONFIRMATION_DUPLICATED and sends nothing. Otherwise a confirmation mail carrying the
  nonce is dispatched to the form's address, \<open>confirm_sent\<close> is set and persisted, the
  raw submitted payload is stored for replay, and the answer is CONFIRMATION_SENT.
\<close>

definition send_confirmation :: "env \<Rightarrow> form \<Rightarrow> payload \<Rightarrow> world \<Rightarrow> send_status \<times> world" where
  "send_confirmation env f store_data w =
     (if confirm_sent f then (CONFIRMATION_DUPLICATED, w)
      else
        (let nonce = confirmation_nonce env f;
             w1 = w\<lparr>outbox := outbox w @ [ConfirmationMail (email f) nonce]\<rparr>;
             (f', w2) = db_commit (f\<lparr>confirm_sent := True\<rparr>) w1
         in (CONFIRMATION_SENT,
             w2\<lparr>first_submissions := first_submissions w2 @ [(nonce, store_data)]\<rparr>)))"

section \<open>The submission endpoint\<close>

text \<open>
  \<^verbatim>\<open>send(email_or_string)\<close>, lines 37 to 287 of \<^verbatim>\<open>views.py\<close>, written as the source
  has it, one definition per block of the function.
\<close>

definition method_not_allowed :: "request \<Rightarrow> response" where
  \<open>method_not_allowed req =
     (if wants_json req then jsonerror 405 [(''error'', ''Please submit POST request.'')]
      else render_template ''info.html''
             [(''title'', ''Form should POST''),
              (''text'', ''Make sure your form has the <span class="code"><strong>method="POST"</strong></span> attribute'')]
             405)\<close>

definition read_payload :: "env \<Rightarrow> request \<Rightarrow> payload \<times> string list" where
  "read_payload env req =
     (let (received_data, sorted_keys) =
            (if form_items req \<noteq> [] then http_form_to_dict env (form_items req)
             else (let d = (case json req of None \<Rightarrow> [] | Some j \<Rightarrow> j) in (d, map fst d)))
      in (received_data, filter (\<lambda>k. k \<notin> set (KEYS_EXCLUDED_FROM_EMAIL env)) sorted_keys))"
  \<comment> \<open>lines 56 to 62\<close>

definition invalid_stored_hostname :: "env \<Rightarrow> response" where
  \<open>invalid_stored_hostname env =
     render_template ''error.html''
       [(''title'', ''Unable to submit form''),
        (''text'', ''<p>We had a problem identifying to whom we should have submitted this form. Please try submitting again. If it fails once more, please let us know at '' @ CONTACT_EMAIL env @ ''</p>'')]
       500\<close>

definition resolve_origin :: "env \<Rightarrow> request \<Rightarrow> payload \<Rightarrow> response + string \<times> string option" where
  "resolve_origin env req received_data =
     (case map_of received_data ''_host_nonce'' of
        None \<Rightarrow> Inr (referrer_to_path env (referrer req), referrer req)
      | Some nonce \<Rightarrow>
          (case get_temp_hostname env nonce of
             Stored h r \<Rightarrow> Inr (h, r)
           | NoNonce \<Rightarrow> Inr (referrer_to_path env (referrer req), referrer req)
           | InvalidStored err \<Rightarrow> Inl (invalid_stored_hostname env)))"
  \<comment> \<open>lines 66 to 79: a KeyError, from the dict or from the nonce store, falls back to the
      referrer header; a ValueError is answered 500\<close>

definition no_host :: "env \<Rightarrow> request \<Rightarrow> response" where
  \<open>no_host env req =
     (if wants_json req then jsonerror 400 [(''error'', ''Invalid "Referrer" header'')]
      else render_template ''error.html''
             [(''title'', ''Unable to submit form''),
              (''text'', ''<p>Make sure you open this page through a web server, Formspree will not work in pages browsed as HTML files. Also make sure that you're posting to <b>'' @ SERVICE_URL env @ path req @ ''</b>.</p><p>For geeks: could not find the "Referrer" header.</p>'')]
             400)\<close>

definition form_not_active :: "request \<Rightarrow> response" where
  \<open>form_not_active req =
     (if wants_json req then jsonerror 403 [(''error'', ''Form not active'')]
      else render_template ''error.html''
             [(''title'', ''Form not active''),
              (''text'', ''The owner of this form has disabled this form and it is no longer accepting submissions. Your submissions was not accepted'')]
             403)\<close>
  \<comment> \<open>lines 108 to 113, and again lines 184 to 189\<close>

definition different_host :: "request \<Rightarrow> string \<Rightarrow> string option \<Rightarrow> response" where
  \<open>different_host req h fh =
     (if wants_json req then
        jsonerror 403 [(''error'', ''Submission from different host than confirmed''),
                       (''submitted'', h), (''confirmed'', str_of fh)]
      else render_template ''error.html''
             [(''title'', ''Check form address''),
              (''text'', ''This submission came from "'' @ h @ ''" but the form was                                                 confirmed for address "'' @ str_of fh @ ''"'')]
             403)\<close>
  \<comment> \<open>lines 133 to 142\<close>

definition host_rejected :: "form \<Rightarrow> string \<Rightarrow> bool" where
  "host_rejected f h =
     ((\<not> sitewide f \<and> rstrip_slash (str_of (host f)) \<noteq> rstrip_slash h) \<or>
      (sitewide f \<and> \<not> startswith (remove_www h) (remove_www (str_of (host f)))))"
  \<comment> \<open>the condition of lines 125 to 131, reached only when \<^verbatim>\<open>form.host\<close> is set\<close>

definition no_form_found :: "request \<Rightarrow> string \<Rightarrow> response" where
  \<open>no_form_found req email_or_string =
     (if wants_json req then jsonerror 400 [(''error'', ''Invalid email address'')]
      else render_template ''error.html''
             [(''title'', ''Check email address''),
              (''text'', ''Email address '' @ email_or_string @ '' is not formatted correctly'')]
             400)\<close>

definition ajax_creation_refused :: "env \<Rightarrow> response" where
  \<open>ajax_creation_refused env =
     jsonerror 400 [(''error'', ''To prevent spam, only '' @ UPGRADED_PLAN_NAME env @ '' accounts may create AJAX forms.'')]\<close>

definition spoofing_refused :: response where
  \<open>spoofing_refused =
     render_template ''error.html'' [(''title'', ''Unable to submit form''), (''text'', ''Sorry'')] 400\<close>

definition check_disabled :: "request \<Rightarrow> form \<Rightarrow> string \<Rightarrow> world \<Rightarrow> (response + form \<times> string) \<times> world" where
  "check_disabled req form0 em w =
     (let (f, w1) = assign_ajax form0 (wants_json req) w
      in if disabled f then (Inl (form_not_active req), w1) else (Inr (f, em), w1))"
  \<comment> \<open>lines 179 to 189\<close>

definition resolve_form ::
  "env \<Rightarrow> request \<Rightarrow> string \<Rightarrow> string \<Rightarrow> world \<Rightarrow> (response + form \<times> string) \<times> world" where
  "resolve_form env req email_or_string h w =
     (if \<not> IS_VALID_EMAIL env email_or_string then
        (case get_with_hashid env (db w) email_or_string of
           Some form0 \<Rightarrow>
             (let (f, w1) = assign_ajax form0 (wants_json req) w
              in if disabled f then (Inl (form_not_active req), w1)
                 else if \<not> truthy (host f) then
                   (let (f', w2) = db_commit (f\<lparr>host := Some h\<rparr>) w1
                    in (Inr (f', email f), w2))
                 else if host_rejected f h then (Inl (different_host req h (host f)), w1)
                 else (Inr (f, email f), w1))
         | None \<Rightarrow> (Inl (no_form_found req email_or_string), w))
      else
        (let em = str_lower env email_or_string
         in case filter_by_hash (db w) (HASH env em h) of
              Some form0 \<Rightarrow> check_disabled req form0 em w
            | None \<Rightarrow>
                if wants_json req then (Inl (ajax_creation_refused env), w)
                else if contains h (url_domain env (SERVICE_URL env)) then (Inl spoofing_refused, w)
                else check_disabled req (Form env em h) em w))"
  \<comment> \<open>lines 96 to 189\<close>

definition needs_captcha :: "env \<Rightarrow> request \<Rightarrow> form \<Rightarrow> bool \<Rightarrow> bool" where
  "needs_captcha env req f captcha_verified =
     (let n = \<not> (wants_json req \<or> captcha_verified \<or> TESTING env)
      in if has_feature env f ''dashboard'' then n \<and> \<not> captcha_disabled f else n)"
  \<comment> \<open>lines 195 to 201\<close>

definition captcha_page ::
  "string \<Rightarrow> payload \<Rightarrow> string list \<Rightarrow> string \<Rightarrow> string option \<Rightarrow> response" where
  "captcha_page name data_copy sorted_keys action lang =
     \<lparr>status_code = 200, body = CaptchaTemplate name data_copy sorted_keys action lang\<rparr>"

definition captcha_challenge ::
  "env \<Rightarrow> request \<Rightarrow> string \<Rightarrow> payload \<Rightarrow> string list \<Rightarrow> form \<Rightarrow> world \<Rightarrow> response \<times> world" where
  "captcha_challenge env req email_or_string received_data sorted_keys f w =
     (let nonce = temp_store_hostname env (host f) (referrer req);
          w1 = log_call (TempStoreHostname (host f) (referrer req)) w;
          data_copy = dict_set received_data ''_host_nonce'' nonce;
          action = urljoin env (API_ROOT env) email_or_string;
          english = captcha_page ''forms/captcha.html'' data_copy sorted_keys action None
      in case map_of received_data ''_language'' of
           Some lang \<Rightarrow>
             (let name = ''forms/captcha_lang/'' @ lang @ ''.html''
              in if template_exists env name
                 then (captcha_page name data_copy sorted_keys action (Some lang), w1)
                 else (english, w1))
         | None \<Rightarrow> (english, w1))"
  \<comment> \<open>lines 204 to 226; a missing language template falls back to the English page\<close>

definition respond ::
  "env \<Rightarrow> request \<Rightarrow> string \<Rightarrow> string \<Rightarrow> string option \<Rightarrow> send_status \<Rightarrow> response" where
  \<open>respond env req em h ref st =
     (case st of
        EMAIL_SENT nxt \<Rightarrow>
          if wants_json req then jsonify [(''success'', ''email sent''), (''next'', nxt)]
          else \<lparr>status_code = 302, body = Redirect nxt\<rparr>
      | NO_EMAIL nxt \<Rightarrow>
          if wants_json req then
            jsonify [(''success'', ''no email sent, access submission archive on '' @ SERVICE_NAME env @ '' dashboard''),
                     (''next'', nxt)]
          else \<lparr>status_code = 302, body = Redirect nxt\<rparr>
      | EMAIL_EMPTY \<Rightarrow>
          if wants_json req then jsonerror 400 [(''error'', ''Can't send an empty form'')]
          else render_template ''error.html''
                 [(''title'', ''Can't send an empty form''),
                  (''text'', ''<p>Make sure you have placed the <a href="http://www.w3schools.com/tags/att_input_name.asp" target="_blank"><code>"name"</code> attribute</a> in all your form elements. Also, to prevent empty form submissions, take a look at the <a href="http://www.w3schools.com/tags/att_input_required.asp" target="_blank"><code>"required"</code> property</a>.</p><p>This error also happens when you have an <code>"enctype"</code> attribute set in your <code>&lt;form&gt;</code>, so make sure you don't.</p><p><a href="'' @ str_of ref @ ''">Return to form</a></p>'')]
                 400
      | CONFIRMATION_SENT \<Rightarrow>
          if wants_json req then jsonify [(''success'', ''confirmation email sent'')]
          else \<lparr>status_code = 200, body = ConfirmationSentTemplate em h False\<rparr>
      | CONFIRMATION_DUPLICATED \<Rightarrow>
          if wants_json req then jsonify [(''success'', ''confirmation email sent'')]
          else \<lparr>status_code = 200, body = ConfirmationSentTemplate em h True\<rparr>
      | OVERLIMIT \<Rightarrow>
          if wants_json req then jsonify [(''error'', ''form over quota'')]
          else render_template ''error.html''
                 [(''title'', ''Form over quota''),
                  (''text'', ''It looks like this form is getting a lot of submissions and ran out of its quota. Try contacting this website through other means or try submitting again later.'')]
                 402
      | REPLYTO_ERROR address back \<Rightarrow>
          if wants_json req then jsonerror 500 [(''error'', ''_replyto or email field has not been sent correctly'')]
          else render_template ''error.html''
                 [(''title'', ''Invalid email address''),
                  (''text'', ''You entered <span class="code">'' @ address @ ''</span>. That is an invalid email address. Please correct the form and try to submit again <a href="'' @ back @ ''">here</a>.<p style="font-size: small">This could also be a problem with the form. For example, there could be two fields with <span class="code">_replyto</span> or <span class="code">email</span> name attribute. If you suspect the form is broken, please contact the form owner and ask them to investigate</p>'')]
                 400
      | OTHER_STATUS c \<Rightarrow>
          if wants_json req then jsonerror 500 [(''error'', ''Unable to send email'')]
          else render_template ''error.html''
                 [(''title'', ''Unable to send email''),
                  (''text'', ''Unable to send email. If you can, please send the link to your form and the error information to  <b>'' @ CONTACT_EMAIL env @ ''</b>. And send them the following: <p><pre><code>'' @ json_dumps env st @ ''</code></pre></p>'')]
                 500)\<close>
  \<comment> \<open>lines 232 to 287\<close>

definition admit ::
  "env \<Rightarrow> request \<Rightarrow> string \<Rightarrow> payload \<Rightarrow> string list \<Rightarrow> string \<Rightarrow> string option \<Rightarrow>
   form \<Rightarrow> string \<Rightarrow> world \<Rightarrow> response \<times> world" where
  "admit env req email_or_string received_data sorted_keys h ref f em w =
     (if confirmed f then
        (let captcha_verified = verify_captcha env received_data req;
             w1 = log_call VerifyCaptcha w
         in if needs_captcha env req f captcha_verified
            then captcha_challenge env req email_or_string received_data sorted_keys f w1
            else (let (st, w2) = form_send env f received_data sorted_keys ref (log_call FormSend w1)
                  in (respond env req em h ref st, w2)))
      else
        (let (st, w1) = send_confirmation env f received_data (log_call SendConfirmation w)
         in (respond env req em h ref st, w1)))"
  \<comment> \<open>lines 191 to 287\<close>

definition send :: "env \<Rightarrow> request \<Rightarrow> string \<Rightarrow> world \<Rightarrow> response \<times> world" where
  "send env req email_or_string w =
     (if http_method req = ''GET'' then (method_not_allowed req, w)
      else
        (let (received_data, sorted_keys) = read_payload env req
         in case resolve_origin env req received_data of
              Inl r \<Rightarrow> (r, w)
            | Inr (h, ref) \<Rightarrow>
                if h = [] then (no_host env req, w)
                else
                  (case resolve_form env req email_or_string h w of
                     (Inl r, w1) \<Rightarrow> (r, w1)
                   | (Inr (f, em), w1) \<Rightarrow>
                       admit env req email_or_string received_data sorted_keys h ref f em w1)))"
  \<comment> \<open>lines 37 to 287; a host that fails \<^verbatim>\<open>if not host\<close> is the empty string\<close>

section \<open>The unconfirm endpoints\<close>

definition request_unconfirm_form ::
  "env \<Rightarrow> request \<Rightarrow> nat \<Rightarrow> world \<Rightarrow> (exn + response) \<times> world" where
  \<open>request_unconfirm_form env req i w =
     (if \<not> truthy (user_agent_browser req) then (Inr \<lparr>status_code = 200, body = Plain []\<rparr>, w)
      else
        (case query_get (db w) i of
           None \<Rightarrow> (Inl AttributeError, w)
         | Some f \<Rightarrow>
             (let url = unconfirm_url env f;
                  w1 = w\<lparr>outbox := outbox w @
                         [UnsubscribeMail (email f) (''Unsubscribe from form at '' @ str_of (host f)) url]\<rparr>
              in (Inr (render_template ''info.html''
                         [(''title'', ''Link sent to your address''),
                          (''text'', ''We've sent an email to '' @ email f @ '' with a link to finish unsubscribing.'')]
                         200),
                  w1))))\<close>
  \<comment> \<open>lines 384 to 419; \<^verbatim>\<open>form.id\<close> on a missing row raises\<close>

fun unconfirm_loop :: "string \<Rightarrow> nat list \<Rightarrow> form list \<Rightarrow> exn + form list" where
  "unconfirm_loop e [] sess = Inr sess"
| "unconfirm_loop e (i # ids) sess =
     (case query_get sess i of
        None \<Rightarrow> Inl AttributeError
      | Some f \<Rightarrow>
          if email f = e then unconfirm_loop e ids (put_row (f\<lparr>confirmed := False\<rparr>) sess)
          else unconfirm_loop e ids sess)"
  \<comment> \<open>lines 460 to 464: the loop works on the rows as the session sees them;
      \<^verbatim>\<open>form.email\<close> on a missing row raises\<close>

definition unconfirm_multiple :: "request \<Rightarrow> world \<Rightarrow> (exn + response) \<times> world" where
  \<open>unconfirm_multiple req w =
     (if \<not> truthy (session_unconfirming req) then
        (Inr (render_template ''error.html''
                [(''title'', ''Forbidden''),
                 (''text'', ''You're not allowed to unconfirm these forms.'')]
                401),
         w)
      else
        (case unconfirm_loop (str_of (session_unconfirming req)) (form_ids req) (db w) of
           Inl x \<Rightarrow> (Inl x, w)
         | Inr sess \<Rightarrow>
             (Inr (render_template ''info.html''
                     [(''title'', ''Success''),
                      (''text'', ''The selected forms were unconfirmed successfully.'')]
                     200),
              w\<lparr>db := sess\<rparr>)))\<close>
  \<comment> \<open>lines 453 to 469: the single commit of line 465 is reached only when the loop
      has finished; an exception leaves the committed rows as they were\<close>

section \<open>Concrete instances\<close>

text \<open>
  A small deployment on which the views are run: stand-ins for the collaborators, a
  request that posts one field from a given referrer, and a few rows.
\<close>

definition demo_referrer_to_path :: "string option \<Rightarrow> string" where
  "demo_referrer_to_path r =
     (case r of
        None \<Rightarrow> []
      | Some s \<Rightarrow>
          if startswith s ''https://'' then drop 8 s
          else if startswith s ''http://'' then drop 7 s
          else s)"

definition demo_env :: env where
  "demo_env =
     \<lparr>TESTING = False,
      SERVICE_URL = ''https://formspree.io'',
      SERVICE_NAME = ''Formspree'',
      API_ROOT = ''https://formspree.io/'',
      CONTACT_EMAIL = ''team@formspree.io'',
      DEFAULT_SENDER = ''noreply@formspree.io'',
      UPGRADED_PLAN_NAME = ''Gold'',
      KEYS_EXCLUDED_FROM_EMAIL = [''_gotcha'', ''_next'', ''_language'', ''_host_nonce'', ''g-recaptcha-response''],
      IS_VALID_EMAIL = (\<lambda>s. CHR ''@'' \<in> set s),
      url_domain = (\<lambda>u. demo_referrer_to_path (Some u)),
      urljoin = (\<lambda>base t. base @ t),
      unicode_lower = (\<lambda>s. s),
      referrer_to_path = demo_referrer_to_path,
      http_form_to_dict = (\<lambda>items. (items, map fst items)),
      get_temp_hostname = (\<lambda>n. NoNonce),
      temp_store_hostname = (\<lambda>h r. ''nonce-for-'' @ str_of h),
      verify_captcha = (\<lambda>d r. map_of d ''g-recaptcha-response'' = Some ''passed''),
      HASH = (\<lambda>e h. e @ ''|'' @ h),
      decode_hashid = (\<lambda>s. if s = ''xk3Dq'' then Some 1 else None),
      has_feature = (\<lambda>f s. False),
      template_exists = (\<lambda>n. False),
      confirmation_nonce = (\<lambda>f. str_of (hash f)),
      unconfirm_url = (\<lambda>f. ''https://formspree.io/unconfirm''),
      json_dumps = (\<lambda>st. ''{}''),
      form_send = (\<lambda>f d ks r w. (EMAIL_SENT ''/thanks'', w))\<rparr>"

definition post_from :: "string \<Rightarrow> request" where
  "post_from r =
     \<lparr>http_method = ''POST'', wants_json = False, form_items = [(''name'', ''Jo'')], json = None,
      referrer = Some r, path = ''/'', user_agent_browser = Some ''firefox'',
      session_unconfirming = None, form_ids = []\<rparr>"

definition sitewide_form :: form where
  "sitewide_form =
     \<lparr>form_id = Some 1, hash = None, email = ''owner@example.com'', host = Some ''example.com'',
      sitewide = True, confirmed = True, confirm_sent = False, disabled = False,
      uses_ajax = Some False, captcha_disabled = False\<rparr>"

definition world_of :: "form list \<Rightarrow> world" where
  "world_of rows = \<lparr>db = rows, outbox = [], first_submissions = [], submissions = [], calls = []\<rparr>"

definition json_post_from :: "string \<Rightarrow> request" where
  "json_post_from r = (post_from r)\<lparr>wants_json := True\<rparr>"

definition env_answering :: "send_status \<Rightarrow> env" where
  "env_answering st = demo_env\<lparr>form_send := (\<lambda>f d ks r w. (st, w))\<rparr>"

definition owner_form :: "nat \<Rightarrow> string \<Rightarrow> form" where
  "owner_form i e =
     \<lparr>form_id = Some i, hash = None, email = e, host = Some ''example.com'',
      sitewide = False, confirmed = True, confirm_sent = False, disabled = False,
      uses_ajax = Some False, captcha_disabled = False\<rparr>"

definition bulk_unconfirm :: "string option \<Rightarrow> nat list \<Rightarrow> request" where
  "bulk_unconfirm marker ids =
     \<lparr>http_method = ''POST'', wants_json = False, form_items = [], json = None,
      referrer = None, path = ''/unconfirm-multiple'', user_agent_browser = Some ''firefox'',
      session_unconfirming = marker, form_ids = ids\<rparr>"

definition bot_request :: request where
  "bot_request = (post_from ''https://example.com'')\<lparr>http_method := ''GET'', user_agent_browser := None\<rparr>"

definition disabled_form :: form where
  "disabled_form =
     \<lparr>form_id = Some 1, hash = None, email = ''owner@example.com'', host = Some ''example.com'',
      sitewide = False, confirmed = True, confirm_sent = False, disabled = True,
      uses_ajax = None, captcha_disabled = False\<rparr>"

definition jo_form :: form where
  "jo_form =
     \<lparr>form_id = Some 1, hash = Some ''owner@example.com|example.com/contact'',
      email = ''owner@example.com'', host = Some ''example.com/contact'',
      sitewide = False, confirmed = False, confirm_sent = False, disabled = False,
      uses_ajax = Some False, captcha_disabled = False\<rparr>"

section \<open>Notions used in the proofs\<close>

text \<open>
  The rows a bulk unconfirm is meant to leave: \<open>confirmed\<close> cleared in the rows whose id
  is among the supplied ids and whose email is \<open>e\<close>, every other row untouched. The
  loop of \<^verbatim>\<open>unconfirm_multiple\<close> is compared with it below.
\<close>

definition unconfirm_rows :: "string \<Rightarrow> nat list \<Rightarrow> form list \<Rightarrow> form list" where
  "unconfirm_rows e ids rows =
     map (\<lambda>f. if form_id f \<in> Some ` set ids \<and> email f = e then f\<lparr>confirmed := False\<rparr> else f) rows"

text \<open>
  A form \<open>f\<close> is settled for a target and a resolved host in the rows when a submission to
  that target from that host finds \<open>f\<close> and passes identity and trust with nothing left to
  record: the delivery channel is already noted, the form is active and has a key, and
  either the target is an email whose (email, host) hash finds \<open>f\<close>, or the target is an
  opaque id that finds \<open>f\<close>, whose host is set and not rejected for the resolved host.
\<close>

definition settled :: "env \<Rightarrow> string \<Rightarrow> string \<Rightarrow> form list \<Rightarrow> form \<Rightarrow> string \<Rightarrow> bool" where
  "settled env email_or_string h rows f em =
     (uses_ajax f \<noteq> None \<and> \<not> disabled f \<and> form_id f \<noteq> None \<and>
      (if IS_VALID_EMAIL env email_or_string
       then filter_by_hash rows (HASH env (str_lower env email_or_string) h) = Some f \<and>
            em = str_lower env email_or_string
       else get_with_hashid env rows email_or_string = Some f \<and> truthy (host f) \<and>
            \<not> host_rejected f h \<and> em = email f))"

section \<open>Properties\<close>

lemmas view_defs = send_def read_payload_def resolve_origin_def resolve_form_def get_with_hashid_def
  query_get_def filter_by_hash_def assign_ajax_def db_commit_def put_row_def host_rejected_def
  different_host_def admit_def needs_captcha_def captcha_challenge_def captcha_page_def log_call_def
  check_disabled_def Form_def send_confirmation_def respond_def jsonerror_def jsonify_def render_template_def
  truthy_def str_of_def remove_www_def rstrip_slash_def str_lower_def is_ascii_def lower_char_def fresh_id_def
  form_not_active_def no_host_def method_not_allowed_def no_form_found_def

lemmas demo_defs = demo_env_def demo_referrer_to_path_def post_from_def sitewide_form_def world_of_def


lemma startswith_refl: "startswith s s"
  by (induction s) simp_all

subsection \<open>The stages of a submission\<close>

text \<open>
  A POST whose origin resolves to a non-empty host is answered by the identity and trust
  stage when that stage rejects it, and is handed to the admission stage otherwise.
\<close>

lemma send_admits:
  assumes "http_method req \<noteq> ''GET''"
    and "read_payload env req = (received_data, sorted_keys)"
    and "resolve_origin env req received_data = Inr (h, ref)"
    and "h \<noteq> []"
    and "resolve_form env req email_or_string h w = (Inr (f, em), w1)"
  shows "send env req email_or_string w =
           admit env req email_or_string received_data sorted_keys h ref f em w1"
  using assms by (simp add: send_def)

lemma send_rejects:
  assumes "http_method req \<noteq> ''GET''"
    and "read_payload env req = (received_data, sorted_keys)"
    and "resolve_origin env req received_data = Inr (h, ref)"
    and "h \<noteq> []"
    and "resolve_form env req email_or_string h w = (Inl r, w1)"
  shows "send env req email_or_string w = (r, w1)"
  using assms by (simp add: send_def)

lemma assign_ajax_form:
  "fst (assign_ajax f j w) =
     (if uses_ajax f = None
      then f\<lparr>uses_ajax := Some j,
             form_id := (case form_id f of None \<Rightarrow> Some (fresh_id (db w)) | Some i \<Rightarrow> Some i)\<rparr>
      else f)"
  by (cases "form_id f") (simp_all add: assign_ajax_def db_commit_def Let_def)

lemma assign_ajax_world:
  "outbox (snd (assign_ajax f j w)) = outbox w"
  "first_submissions (snd (assign_ajax f j w)) = first_submissions w"
  "submissions (snd (assign_ajax f j w)) = submissions w"
  "calls (snd (assign_ajax f j w)) = calls w"
  by (cases "form_id f"; simp add: assign_ajax_def db_commit_def Let_def)+

lemma assign_ajax_disabled: "disabled (fst (assign_ajax f j w)) = disabled f"
  by (simp add: assign_ajax_form)

lemma db_commit_world:
  "outbox (snd (db_commit f w)) = outbox w"
  "first_submissions (snd (db_commit f w)) = first_submissions w"
  "submissions (snd (db_commit f w)) = submissions w"
  "calls (snd (db_commit f w)) = calls w"
  by (cases "form_id f"; simp add: db_commit_def Let_def)+

lemma check_disabled_world:
  "outbox (snd (check_disabled req f em w)) = outbox w"
  "first_submissions (snd (check_disabled req f em w)) = first_submissions w"
  "submissions (snd (check_disabled req f em w)) = submissions w"
  "calls (snd (check_disabled req f em w)) = calls w"
  by (simp_all add: check_disabled_def split_beta assign_ajax_world)

lemma resolve_form_world:
  "outbox (snd (resolve_form env req email_or_string h w)) = outbox w"
  "first_submissions (snd (resolve_form env req email_or_string h w)) = first_submissions w"
  "submissions (snd (resolve_form env req email_or_string h w)) = submissions w"
  "calls (snd (resolve_form env req email_or_string h w)) = calls w"
  by (simp_all add: resolve_form_def Let_def split_beta assign_ajax_world db_commit_world
        check_disabled_world split: option.splits)

subsection \<open>The Trust Rule\<close>

text \<open>
  C1, as the code has it. For a form found by its opaque id whose host is already set and
  that is not disabled, the submission is handed to the admission stage exactly when the
  stored host equals the resolved host after stripping trailing slashes (form not
  sitewide), or the resolved host, with a leading \<^verbatim>\<open>www.\<close> removed from both sides,
  begins with the stored host (sitewide form). Every other submission is answered 403
  with a body that names the submitted and the confirmed host. For a sitewide form
  confirmed for \<^verbatim>\<open>example.com\<close>, a submission from \<^verbatim>\<open>www.example.com\<close> passes, and
  submissions from \<^verbatim>\<open>evilexample.com\<close> and from \<^verbatim>\<open>blog.example.com\<close> are rejected:
  the rule is a prefix test, and a subdomain does not begin with the stored host.
\<close>

theorem trust_rule:
  assumes post: "http_method req \<noteq> ''GET''"
    and payload: "read_payload env req = (received_data, sorted_keys)"
    and origin: "resolve_origin env req received_data = Inr (h, ref)"
    and h: "h \<noteq> []"
    and hashid: "\<not> IS_VALID_EMAIL env email_or_string"
    and found: "get_with_hashid env (db w) email_or_string = Some form0"
    and active: "\<not> disabled form0"
    and bound: "host form0 = Some fh" "fh \<noteq> []"
    and ajax: "assign_ajax form0 (wants_json req) w = (f, w1)"
  shows \<open>send env req email_or_string w =
           (if (if sitewide form0 then startswith (remove_www h) (remove_www fh)
                else rstrip_slash fh = rstrip_slash h)
            then admit env req email_or_string received_data sorted_keys h ref f (email form0) w1
            else (different_host req h (Some fh), w1))
         \<and> status_code (different_host req h (Some fh)) = 403
         \<and> body (different_host req h (Some fh)) =
             (if wants_json req
              then Json [(''error'', ''Submission from different host than confirmed''),
                         (''submitted'', h), (''confirmed'', fh)]
              else Template ''error.html''
                     [(''title'', ''Check form address''),
                      (''text'', ''This submission came from "'' @ h @ ''" but the form was                                                 confirmed for address "'' @ fh @ ''"'')])
         \<and> (sitewide form0 \<and> fh = ''example.com'' \<longrightarrow>
              (h = ''www.example.com'' \<longrightarrow>
                 send env req email_or_string w =
                   admit env req email_or_string received_data sorted_keys h ref f (email form0) w1) \<and>
              (h = ''evilexample.com'' \<or> h = ''blog.example.com'' \<longrightarrow>
                 send env req email_or_string w = (different_host req h (Some fh), w1)))\<close>
proof -
  have same: "disabled f = disabled form0" "host f = host form0" "sitewide f = sitewide form0"
             "email f = email form0"
    using ajax by (auto simp: assign_ajax_def db_commit_def Let_def split: if_splits option.splits)
  have rej: "host_rejected f h =
               (\<not> (if sitewide form0 then startswith (remove_www h) (remove_www fh)
                    else rstrip_slash fh = rstrip_slash h))"
    by (simp add: host_rejected_def same bound str_of_def)
  have main: "send env req email_or_string w =
           (if (if sitewide form0 then startswith (remove_www h) (remove_www fh)
                else rstrip_slash fh = rstrip_slash h)
            then admit env req email_or_string received_data sorted_keys h ref f (email form0) w1
            else (different_host req h (Some fh), w1))"
    using post h hashid active bound
    by (simp add: send_def payload origin resolve_form_def found ajax same rej truthy_def)
  have code: "status_code (different_host req h (Some fh)) = 403"
    by (simp add: different_host_def jsonerror_def render_template_def)
  have disclosed: \<open>body (different_host req h (Some fh)) =
             (if wants_json req
              then Json [(''error'', ''Submission from different host than confirmed''),
                         (''submitted'', h), (''confirmed'', fh)]
              else Template ''error.html''
                     [(''title'', ''Check form address''),
                      (''text'', ''This submission came from "'' @ h @ ''" but the form was                                                 confirmed for address "'' @ fh @ ''"'')])\<close>
    by (simp add: different_host_def jsonerror_def render_template_def str_of_def)
  have www: "startswith (remove_www ''www.example.com'') (remove_www ''example.com'')"
    by (simp add: remove_www_def)
  have evil: "\<not> startswith (remove_www ''evilexample.com'') (remove_www ''example.com'')"
    by (simp add: remove_www_def)
  have blog: "\<not> startswith (remove_www ''blog.example.com'') (remove_www ''example.com'')"
    by (simp add: remove_www_def)
  have examples: "sitewide form0 \<and> fh = ''example.com'' \<longrightarrow>
              (h = ''www.example.com'' \<longrightarrow>
                 send env req email_or_string w =
                   admit env req email_or_string received_data sorted_keys h ref f (email form0) w1) \<and>
              (h = ''evilexample.com'' \<or> h = ''blog.example.com'' \<longrightarrow>
                 send env req email_or_string w = (different_host req h (Some fh), w1))"
    using main www evil blog by auto
  show ?thesis using main code disclosed examples by blast
qed

text \<open>The rule at work on a sitewide form confirmed for \<^verbatim>\<open>example.com\<close>.\<close>

theorem trust_rule_witness:
  "send demo_env (post_from ''https://www.example.com'') ''xk3Dq'' (world_of [sitewide_form]) =
     admit demo_env (post_from ''https://www.example.com'') ''xk3Dq'' [(''name'', ''Jo'')] [''name'']
       ''www.example.com'' (Some ''https://www.example.com'') sitewide_form ''owner@example.com''
       (world_of [sitewide_form])
   \<and> send demo_env (post_from ''https://evilexample.com'') ''xk3Dq'' (world_of [sitewide_form]) =
       (different_host (post_from ''https://evilexample.com'') ''evilexample.com'' (Some ''example.com''),
        world_of [sitewide_form])"
proof -
  let ?w = "world_of [sitewide_form]"
  have a: "http_method (post_from r) \<noteq> ''GET''" for r by (simp add: post_from_def)
  have b: "read_payload demo_env (post_from r) = ([(''name'', ''Jo'')], [''name''])" for r
    by (simp add: read_payload_def demo_defs)
  have c1: "resolve_origin demo_env (post_from ''https://www.example.com'') [(''name'', ''Jo'')] =
             Inr (''www.example.com'', Some ''https://www.example.com'')"
    by (simp add: resolve_origin_def demo_defs)
  have c2: "resolve_origin demo_env (post_from ''https://evilexample.com'') [(''name'', ''Jo'')] =
             Inr (''evilexample.com'', Some ''https://evilexample.com'')"
    by (simp add: resolve_origin_def demo_defs)
  have d: "\<not> IS_VALID_EMAIL demo_env ''xk3Dq''" by (simp add: demo_defs)
  have e: "get_with_hashid demo_env (db ?w) ''xk3Dq'' = Some sitewide_form"
    by (simp add: get_with_hashid_def query_get_def demo_defs)
  have f: "\<not> disabled sitewide_form" "host sitewide_form = Some ''example.com''"
          "sitewide sitewide_form" "email sitewide_form = ''owner@example.com''"
    by (simp_all add: sitewide_form_def)
  have g: "assign_ajax sitewide_form (wants_json (post_from r)) ?w = (sitewide_form, ?w)" for r
    by (simp add: assign_ajax_def sitewide_form_def)
  have "send demo_env (post_from ''https://www.example.com'') ''xk3Dq'' ?w =
          admit demo_env (post_from ''https://www.example.com'') ''xk3Dq'' [(''name'', ''Jo'')] [''name'']
            ''www.example.com'' (Some ''https://www.example.com'') sitewide_form ''owner@example.com'' ?w"
    using trust_rule [OF a b c1 _ d e f(1) f(2) _ g, THEN conjunct1]
    by (simp add: f remove_www_def)
  moreover
  have "send demo_env (post_from ''https://evilexample.com'') ''xk3Dq'' ?w =
          (different_host (post_from ''https://evilexample.com'') ''evilexample.com'' (Some ''example.com''), ?w)"
    using trust_rule [OF a b c2 _ d e f(1) f(2) _ g, THEN conjunct1]
    by (simp add: f remove_www_def)
  ultimately show ?thesis by simp
qed

text \<open>
  A submission from \<^verbatim>\<open>blog.example.com\<close> to that form is rejected with status 403.
\<close>

theorem trust_rule_subdomain_counterexample:
  \<open>send demo_env (post_from ''https://blog.example.com'') ''xk3Dq'' (world_of [sitewide_form]) =
     (\<lparr>status_code = 403,
       body = Template ''error.html''
                [(''title'', ''Check form address''),
                 (''text'', ''This submission came from "blog.example.com" but the form was                                                 confirmed for address "example.com"'')]\<rparr>,
      world_of [sitewide_form])\<close>
  by (simp add: view_defs demo_defs)

subsection \<open>Disabled forms\<close>

text \<open>
  C3. A POST whose origin is resolved and whose target finds a disabled form, by its
  opaque id or by the hash of (email, host), is answered with the form-not-active
  response, status 403. The world is the one left by recording the delivery channel:
  no mail is in the outbox that was not there, no payload is stored for a confirmation,
  no submission is archived, and neither the captcha check, the Delivery Engine nor the
  confirmation is called. The confirmed flag, the captcha token and the payload do not
  occur in the hypotheses.
\<close>

theorem disabled_form_rejected:
  assumes post: "http_method req \<noteq> ''GET''"
    and payload: "read_payload env req = (received_data, sorted_keys)"
    and origin: "resolve_origin env req received_data = Inr (h, ref)"
    and h: "h \<noteq> []"
    and found: "(\<not> IS_VALID_EMAIL env email_or_string \<and>
                 get_with_hashid env (db w) email_or_string = Some form0) \<or>
                (IS_VALID_EMAIL env email_or_string \<and>
                 filter_by_hash (db w) (HASH env (str_lower env email_or_string) h) = Some form0)"
    and off: "disabled form0"
  shows "fst (send env req email_or_string w) = form_not_active req
         \<and> status_code (fst (send env req email_or_string w)) = 403
         \<and> snd (send env req email_or_string w) = snd (assign_ajax form0 (wants_json req) w)
         \<and> outbox (snd (send env req email_or_string w)) = outbox w
         \<and> first_submissions (snd (send env req email_or_string w)) = first_submissions w
         \<and> submissions (snd (send env req email_or_string w)) = submissions w
         \<and> calls (snd (send env req email_or_string w)) = calls w"
proof -
  obtain f w1 where aj: "assign_ajax form0 (wants_json req) w = (f, w1)"
    by (cases "assign_ajax form0 (wants_json req) w")
  have df: "disabled f" using assign_ajax_disabled [of form0 "wants_json req" w] off aj by simp
  have "resolve_form env req email_or_string h w = (Inl (form_not_active req), w1)"
    using found
  proof
    assume "\<not> IS_VALID_EMAIL env email_or_string \<and>
            get_with_hashid env (db w) email_or_string = Some form0"
    then show ?thesis using aj df by (simp add: resolve_form_def)
  next
    assume "IS_VALID_EMAIL env email_or_string \<and>
            filter_by_hash (db w) (HASH env (str_lower env email_or_string) h) = Some form0"
    then show ?thesis using aj df by (simp add: resolve_form_def check_disabled_def Let_def)
  qed
  then have s: "send env req email_or_string w = (form_not_active req, w1)"
    using send_rejects [OF post payload origin h] by simp
  have w1: "w1 = snd (assign_ajax form0 (wants_json req) w)" using aj by simp
  have code: "status_code (form_not_active req) = 403"
    by (simp add: form_not_active_def jsonerror_def render_template_def)
  show ?thesis
    by (simp add: s code) (simp add: w1 assign_ajax_world)
qed

text \<open>
  A disabled form that is confirmed, sent a passing captcha token.
\<close>

theorem disabled_form_rejected_witness:
  "fst (send demo_env ((post_from ''https://example.com'')\<lparr>form_items := [(''g-recaptcha-response'', ''passed'')]\<rparr>)
          ''xk3Dq'' (world_of [disabled_form])) =
     form_not_active ((post_from ''https://example.com'')\<lparr>form_items := [(''g-recaptcha-response'', ''passed'')]\<rparr>)
   \<and> status_code (fst (send demo_env ((post_from ''https://example.com'')\<lparr>form_items := [(''g-recaptcha-response'', ''passed'')]\<rparr>)
          ''xk3Dq'' (world_of [disabled_form]))) = 403
   \<and> snd (send demo_env ((post_from ''https://example.com'')\<lparr>form_items := [(''g-recaptcha-response'', ''passed'')]\<rparr>)
          ''xk3Dq'' (world_of [disabled_form])) =
     world_of [disabled_form\<lparr>uses_ajax := Some False\<rparr>]"
proof -
  let ?req = "(post_from ''https://example.com'')\<lparr>form_items := [(''g-recaptcha-response'', ''passed'')]\<rparr>"
  let ?w = "world_of [disabled_form]"
  have a: "http_method ?req \<noteq> ''GET''" by (simp add: post_from_def)
  have b: "read_payload demo_env ?req = ([(''g-recaptcha-response'', ''passed'')], [])"
    by (simp add: read_payload_def demo_defs)
  have c: "resolve_origin demo_env ?req [(''g-recaptcha-response'', ''passed'')] =
             Inr (''example.com'', Some ''https://example.com'')"
    by (simp add: resolve_origin_def demo_defs)
  have d: "(\<not> IS_VALID_EMAIL demo_env ''xk3Dq'' \<and>
             get_with_hashid demo_env (db ?w) ''xk3Dq'' = Some disabled_form) \<or>
           (IS_VALID_EMAIL demo_env ''xk3Dq'' \<and>
             filter_by_hash (db ?w) (HASH demo_env (str_lower demo_env ''xk3Dq'') ''example.com'') = Some disabled_form)"
    by (simp add: get_with_hashid_def query_get_def demo_defs disabled_form_def)
  have e: "disabled disabled_form" by (simp add: disabled_form_def)
  have f: "snd (assign_ajax disabled_form (wants_json ?req) ?w) =
             world_of [disabled_form\<lparr>uses_ajax := Some False\<rparr>]"
    by (simp add: assign_ajax_def db_commit_def put_row_def disabled_form_def world_of_def post_from_def)
  note t = disabled_form_rejected [OF a b c _ d e]
  have g: "''example.com'' \<noteq> []" by simp
  show ?thesis using t [OF g] unfolding f by blast
qed

subsection \<open>Email targets\<close>







subsection \<open>The captcha challenge\<close>






subsection \<open>Unconfirmed forms\<close>

lemma find_put_row:
  "find P rows = Some f0 \<Longrightarrow> form_id f' = form_id f0 \<Longrightarrow> P f' \<Longrightarrow>
   find P (put_row f' rows) = Some f'"
proof (induction rows)
  case Nil
  then show ?case by simp
next
  case (Cons g rows)
  show ?case
  proof (cases "P g")
    case True
    then have "g = f0" using Cons.prems(1) by simp
    then show ?thesis using Cons.prems(2,3) by (simp add: put_row_def)
  next
    case False
    then have "find P rows = Some f0" using Cons.prems(1) by simp
    then have "find P (put_row f' rows) = Some f'" using Cons.IH Cons.prems(2,3) by blast
    then show ?thesis using False Cons.prems(3) by (simp add: put_row_def)
  qed
qed

lemma find_append_new: "find P rows = None \<Longrightarrow> P f' \<Longrightarrow> find P (rows @ [f']) = Some f'"
  by (induction rows) (simp_all split: if_splits)

lemma find_holds: "find P rows = Some f \<Longrightarrow> P f \<and> f \<in> set rows"
  by (induction rows) (auto split: if_splits)

lemma host_rejected_bound: "\<not> host_rejected (f\<lparr>host := Some h\<rparr>) h"
  by (simp add: host_rejected_def str_of_def startswith_refl)

lemma settled_resolve:
  assumes "settled env email_or_string h (db w) f em"
  shows "resolve_form env req email_or_string h w = (Inr (f, em), w)"
proof (cases "IS_VALID_EMAIL env email_or_string")
  case True
  then show ?thesis
    using assms
    by (auto simp: settled_def resolve_form_def check_disabled_def assign_ajax_def Let_def)
next
  case False
  then show ?thesis
    using assms
    by (auto simp: settled_def resolve_form_def assign_ajax_def Let_def)
qed

lemma settled_put_row:
  assumes s: "settled env email_or_string h rows f em"
    and same: "form_id f' = form_id f" "hash f' = hash f" "uses_ajax f' = uses_ajax f"
      "disabled f' = disabled f" "host f' = host f" "sitewide f' = sitewide f" "email f' = email f"
  shows "settled env email_or_string h (put_row f' rows) f' em"
proof (cases "IS_VALID_EMAIL env email_or_string")
  case True
  let ?P = "\<lambda>g. hash g = Some (HASH env (str_lower env email_or_string) h)"
  have f: "find ?P rows = Some f" using s True by (simp add: settled_def filter_by_hash_def)
  then have "?P f" using find_holds by fast
  then have "?P f'" using same by simp
  then have "find ?P (put_row f' rows) = Some f'" using find_put_row [OF f same(1)] by blast
  then show ?thesis using s True same by (simp add: settled_def filter_by_hash_def)
next
  case False
  then obtain i where i: "decode_hashid env email_or_string = Some i"
    and q: "query_get rows i = Some f"
    using s by (auto simp: settled_def get_with_hashid_def split: option.splits)
  let ?P = "\<lambda>g. form_id g = Some i"
  have f: "find ?P rows = Some f" using q by (simp add: query_get_def)
  then have "?P f" using find_holds by fast
  then have "?P f'" using same by simp
  then have "find ?P (put_row f' rows) = Some f'" using find_put_row [OF f same(1)] by blast
  then have "get_with_hashid env (put_row f' rows) email_or_string = Some f'"
    using i by (simp add: get_with_hashid_def query_get_def)
  then show ?thesis
    using s False same by (simp add: settled_def host_rejected_def)
qed

lemma assign_ajax_keeps:
  assumes found: "find P (db w) = Some f0"
    and key: "form_id f0 \<noteq> None"
    and stable: "P (f0\<lparr>uses_ajax := Some j\<rparr>)"
    and aj: "assign_ajax f0 j w = (fa, wa)"
  shows "find P (db wa) = Some fa \<and> uses_ajax fa \<noteq> None \<and> form_id fa = form_id f0 \<and>
         disabled fa = disabled f0 \<and> host fa = host f0 \<and> email fa = email f0"
proof (cases "uses_ajax f0 = None")
  case False
  then have "fa = f0" "wa = w" using aj by (auto simp: assign_ajax_def)
  then show ?thesis using found False by simp
next
  case True
  obtain i where i: "form_id f0 = Some i" using key by blast
  let ?f = "f0\<lparr>uses_ajax := Some j\<rparr>"
  have "fa = ?f" "wa = w\<lparr>db := put_row ?f (db w)\<rparr>"
    using aj True i by (auto simp: assign_ajax_def db_commit_def)
  moreover have "find P (put_row ?f (db w)) = Some ?f"
    using find_put_row [OF found _ stable] by simp
  ultimately show ?thesis by simp
qed

lemma resolve_settles_hashid:
  assumes r: "resolve_form env req email_or_string h w = (Inr (f, em), w1)"
    and h: "h \<noteq> []"
    and invalid: "\<not> IS_VALID_EMAIL env email_or_string"
  shows "settled env email_or_string h (db w1) f em"
proof -
  obtain f0 where g: "get_with_hashid env (db w) email_or_string = Some f0"
    using r invalid by (cases "get_with_hashid env (db w) email_or_string") (simp_all add: resolve_form_def)
  obtain i where i: "decode_hashid env email_or_string = Some i"
    and q: "query_get (db w) i = Some f0"
    using g by (auto simp: get_with_hashid_def split: option.splits)
  let ?P = "\<lambda>g. form_id g = Some i"
  have found: "find ?P (db w) = Some f0" using q by (simp add: query_get_def)
  then have id0: "form_id f0 = Some i" using find_holds by fast
  obtain fa wa where aj: "assign_ajax f0 (wants_json req) w = (fa, wa)"
    by (cases "assign_ajax f0 (wants_json req) w")
  have keep: "find ?P (db wa) = Some fa \<and> uses_ajax fa \<noteq> None \<and> form_id fa = form_id f0 \<and>
         disabled fa = disabled f0 \<and> host fa = host f0 \<and> email fa = email f0"
    using assign_ajax_keeps [OF found _ _ aj] id0 by simp
  have r': "(if disabled fa then (Inl (form_not_active req), wa)
             else if \<not> truthy (host fa) then
               (let (f', w2) = db_commit (fa\<lparr>host := Some h\<rparr>) wa in (Inr (f', email fa), w2))
             else if host_rejected fa h then (Inl (different_host req h (host fa)), wa)
             else (Inr (fa, email fa), wa)) = (Inr (f, em), w1)"
    using r invalid g aj by (simp add: resolve_form_def)
  have active: "\<not> disabled fa" using r' by (auto split: if_splits)
  show ?thesis
  proof (cases "truthy (host fa)")
    case True
    then have nr: "\<not> host_rejected fa h" and eq: "f = fa" "em = email fa" "w1 = wa"
      using r' active by (auto split: if_splits)
    have "get_with_hashid env (db wa) email_or_string = Some fa"
      using keep i by (simp add: get_with_hashid_def query_get_def)
    then show ?thesis
      using keep active True nr eq invalid id0 by (simp add: settled_def)
  next
    case False
    let ?f = "fa\<lparr>host := Some h\<rparr>"
    have ida: "form_id fa = Some i" using keep id0 by simp
    have eq: "f = ?f" "em = email fa" "w1 = wa\<lparr>db := put_row ?f (db wa)\<rparr>"
      using r' active False ida by (auto simp: db_commit_def)
    have k1: "find ?P (db wa) = Some fa" using keep by blast
    have "find ?P (put_row ?f (db wa)) = Some ?f"
      by (rule find_put_row [OF k1]) (simp_all add: ida)
    then have "get_with_hashid env (db w1) email_or_string = Some f"
      using eq i by (simp add: get_with_hashid_def query_get_def)
    then have g': "get_with_hashid env (db w1) email_or_string = Some f" .
    have u: "uses_ajax f \<noteq> None" using keep eq(1) by simp
    have d: "\<not> disabled f" using active eq(1) by simp
    have k: "form_id f \<noteq> None" using ida eq(1) by simp
    have t: "truthy (host f)" using eq(1) h by (simp add: truthy_def)
    have nr: "\<not> host_rejected f h" unfolding eq(1) by (rule host_rejected_bound)
    have e: "em = email f" using eq(1,2) by simp
    show ?thesis
      unfolding settled_def using invalid g' u d k t nr e by (simp only: if_False simp_thms)
  qed
qed

lemma resolve_settles_email:
  assumes r: "resolve_form env req email_or_string h w = (Inr (f, em), w1)"
    and valid: "IS_VALID_EMAIL env email_or_string"
    and ids: "list_all (\<lambda>g. form_id g \<noteq> None) (db w)"
  shows "settled env email_or_string h (db w1) f em"
proof -
  let ?em = "str_lower env email_or_string"
  let ?P = "\<lambda>g. hash g = Some (HASH env ?em h)"
  show ?thesis
  proof (cases "find ?P (db w)")
    case (Some f0)
    then have "f0 \<in> set (db w)" and p0: "?P f0" using find_holds by fast+
    then have key: "form_id f0 \<noteq> None" using ids by (simp add: list_all_iff)
    obtain fa wa where aj: "assign_ajax f0 (wants_json req) w = (fa, wa)"
      by (cases "assign_ajax f0 (wants_json req) w")
    have keep: "find ?P (db wa) = Some fa \<and> uses_ajax fa \<noteq> None \<and> form_id fa = form_id f0 \<and>
         disabled fa = disabled f0 \<and> host fa = host f0 \<and> email fa = email f0"
      using assign_ajax_keeps [OF Some key _ aj] p0 by simp
    have r': "(if disabled fa then (Inl (form_not_active req), wa) else (Inr (fa, ?em), wa)) =
              (Inr (f, em), w1)"
      using r valid Some aj by (simp add: resolve_form_def filter_by_hash_def check_disabled_def Let_def)
    then have active: "\<not> disabled fa" and eq: "f = fa" "em = ?em" "w1 = wa"
      by (auto split: if_splits)
    show ?thesis
      using keep key active eq valid by (simp add: settled_def filter_by_hash_def)
  next
    case None
    let ?f = "(Form env ?em h)\<lparr>uses_ajax := Some (wants_json req), form_id := Some (fresh_id (db w))\<rparr>"
    have aj: "assign_ajax (Form env ?em h) (wants_json req) w = (?f, w\<lparr>db := db w @ [?f]\<rparr>)"
      by (simp add: assign_ajax_def db_commit_def Form_def Let_def)
    have cd: "check_disabled req (Form env ?em h) ?em w = (Inr (?f, ?em), w\<lparr>db := db w @ [?f]\<rparr>)"
      by (simp add: check_disabled_def aj) (simp add: Form_def)
    have nj: "\<not> wants_json req"
      using r valid None by (auto simp: resolve_form_def filter_by_hash_def Let_def split: if_splits)
    have ns: "\<not> contains h (url_domain env (SERVICE_URL env))"
      using r valid None nj by (auto simp: resolve_form_def filter_by_hash_def Let_def split: if_splits)
    have "resolve_form env req email_or_string h w = check_disabled req (Form env ?em h) ?em w"
      using valid None nj ns by (simp add: resolve_form_def filter_by_hash_def Let_def)
    then have "(Inr (?f, ?em), w\<lparr>db := db w @ [?f]\<rparr>) = (Inr (f, em), w1)"
      using r cd by simp
    then have eq: "f = ?f" "em = ?em" "w1 = w\<lparr>db := db w @ [?f]\<rparr>"
      by auto
    have "?P ?f" by (simp add: Form_def)
    then have "find ?P (db w @ [?f]) = Some ?f" using find_append_new [OF None] by blast
    then show ?thesis
      using eq valid by (simp add: settled_def filter_by_hash_def) (simp add: Form_def)
  qed
qed

lemma resolve_settles:
  assumes "resolve_form env req email_or_string h w = (Inr (f, em), w1)"
    and "h \<noteq> []"
    and "list_all (\<lambda>g. form_id g \<noteq> None) (db w)"
  shows "settled env email_or_string h (db w1) f em"
  using assms resolve_settles_hashid resolve_settles_email
  by (cases "IS_VALID_EMAIL env email_or_string") blast+

lemma send_confirmation_duplicated:
  "confirm_sent f \<Longrightarrow> send_confirmation env f store_data w = (CONFIRMATION_DUPLICATED, w)"
  by (simp add: send_confirmation_def)

lemma send_confirmation_sent:
  assumes "\<not> confirm_sent f"
  shows "fst (send_confirmation env f store_data w) = CONFIRMATION_SENT"
    and "outbox (snd (send_confirmation env f store_data w)) =
           outbox w @ [ConfirmationMail (email f) (confirmation_nonce env f)]"
    and "first_submissions (snd (send_confirmation env f store_data w)) =
           first_submissions w @ [(confirmation_nonce env f, store_data)]"
    and "calls (snd (send_confirmation env f store_data w)) = calls w"
    and "submissions (snd (send_confirmation env f store_data w)) = submissions w"
    and "form_id f \<noteq> None \<Longrightarrow>
           db (snd (send_confirmation env f store_data w)) = put_row (f\<lparr>confirm_sent := True\<rparr>) (db w)"
  using assms
  by (cases "form_id f"; simp add: send_confirmation_def db_commit_def Let_def)+

lemma admit_unconfirmed:
  assumes "\<not> confirmed f"
  shows "admit env req email_or_string received_data sorted_keys h ref f em w =
           (respond env req em h ref
              (fst (send_confirmation env f received_data (log_call SendConfirmation w))),
            snd (send_confirmation env f received_data (log_call SendConfirmation w)))"
  using assms by (simp add: admit_def split_beta)

lemma jo_resolves:
  "resolve_form demo_env (post_from ''https://example.com/contact'') ''owner@example.com''
     ''example.com/contact'' (world_of []) =
   (Inr (jo_form, ''owner@example.com''), world_of [jo_form])"
  by (simp add: resolve_form_def filter_by_hash_def check_disabled_def assign_ajax_def db_commit_def
        Form_def fresh_id_def str_lower_def is_ascii_def lower_char_def Let_def jo_form_def demo_defs)

text \<open>
  C2. A POST that reaches admission with a form that is not confirmed makes exactly one
  call, the confirmation: no captcha is checked and the Delivery Engine is not called,
  and nothing is archived. If no confirmation was sent before, the answer is that of
  CONFIRMATION_SENT, one confirmation mail goes to the form's address and the submitted
  payload is stored with the nonce; submitting the same request again, on the world the
  first one left (rows with keys), is answered as CONFIRMATION_DUPLICATED and changes
  nothing but the trace of calls, so no new mail is sent. If a confirmation was already
  sent, the answer is that of CONFIRMATION_DUPLICATED and no mail is sent.
\<close>

theorem unconfirmed_branch:
  assumes post: "http_method req \<noteq> ''GET''"
    and payload: "read_payload env req = (received_data, sorted_keys)"
    and origin: "resolve_origin env req received_data = Inr (h, ref)"
    and h: "h \<noteq> []"
    and resolved: "resolve_form env req email_or_string h w = (Inr (f, em), w1)"
    and unconfirmed: "\<not> confirmed f"
  shows "calls (snd (send env req email_or_string w)) = calls w @ [SendConfirmation]
         \<and> submissions (snd (send env req email_or_string w)) = submissions w
         \<and> (confirm_sent f \<longrightarrow>
              send env req email_or_string w =
                (respond env req em h ref CONFIRMATION_DUPLICATED,
                 w1\<lparr>calls := calls w @ [SendConfirmation]\<rparr>) \<and>
              outbox (snd (send env req email_or_string w)) = outbox w \<and>
              first_submissions (snd (send env req email_or_string w)) = first_submissions w)
         \<and> (\<not> confirm_sent f \<longrightarrow>
              fst (send env req email_or_string w) = respond env req em h ref CONFIRMATION_SENT \<and>
              outbox (snd (send env req email_or_string w)) =
                outbox w @ [ConfirmationMail (email f) (confirmation_nonce env f)] \<and>
              first_submissions (snd (send env req email_or_string w)) =
                first_submissions w @ [(confirmation_nonce env f, received_data)] \<and>
              (list_all (\<lambda>g. form_id g \<noteq> None) (db w) \<longrightarrow>
                 send env req email_or_string (snd (send env req email_or_string w)) =
                   (respond env req em h ref CONFIRMATION_DUPLICATED,
                    (snd (send env req email_or_string w))
                      \<lparr>calls := calls (snd (send env req email_or_string w)) @ [SendConfirmation]\<rparr>)))"
proof -
  let ?lw = "log_call SendConfirmation w1"
  have s: "send env req email_or_string w =
             (respond env req em h ref (fst (send_confirmation env f received_data ?lw)),
              snd (send_confirmation env f received_data ?lw))"
    using send_admits [OF post payload origin h resolved] admit_unconfirmed [OF unconfirmed] by simp
  have w1: "calls w1 = calls w" "submissions w1 = submissions w" "outbox w1 = outbox w"
    "first_submissions w1 = first_submissions w"
    using resolve_form_world [of env req email_or_string h w] resolved by simp_all
  have lw: "calls ?lw = calls w @ [SendConfirmation]" "submissions ?lw = submissions w"
    "outbox ?lw = outbox w" "first_submissions ?lw = first_submissions w" "db ?lw = db w1"
    by (simp_all add: log_call_def w1)
  show ?thesis
  proof (cases "confirm_sent f")
    case True
    have "send env req email_or_string w =
            (respond env req em h ref CONFIRMATION_DUPLICATED, ?lw)"
      using s send_confirmation_duplicated [OF True] by simp
    then show ?thesis using True by (simp add: log_call_def w1)
  next
    case False
    note sc = send_confirmation_sent [OF False, of env received_data ?lw]
    have a: "calls (snd (send env req email_or_string w)) = calls w @ [SendConfirmation]"
      using s sc(4) lw by simp
    have b: "submissions (snd (send env req email_or_string w)) = submissions w"
      using s sc(5) lw by simp
    have c: "fst (send env req email_or_string w) = respond env req em h ref CONFIRMATION_SENT"
      using s sc(1) by simp
    have d: "outbox (snd (send env req email_or_string w)) =
               outbox w @ [ConfirmationMail (email f) (confirmation_nonce env f)]"
      using s sc(2) lw by simp
    have e: "first_submissions (snd (send env req email_or_string w)) =
               first_submissions w @ [(confirmation_nonce env f, received_data)]"
      using s sc(3) lw by simp
    have again: "send env req email_or_string (snd (send env req email_or_string w)) =
                   (respond env req em h ref CONFIRMATION_DUPLICATED,
                    (snd (send env req email_or_string w))
                      \<lparr>calls := calls (snd (send env req email_or_string w)) @ [SendConfirmation]\<rparr>)"
      if ids: "list_all (\<lambda>g. form_id g \<noteq> None) (db w)"
    proof -
      define w2 where "w2 = snd (send env req email_or_string w)"
      let ?f = "f\<lparr>confirm_sent := True\<rparr>"
      have st: "settled env email_or_string h (db w1) f em"
        using resolve_settles [OF resolved h ids] .
      then have key: "form_id f \<noteq> None" by (simp add: settled_def)
      have "db w2 = put_row ?f (db w1)"
        unfolding w2_def using s sc(6) [OF key] lw by simp
      then have "settled env email_or_string h (db w2) ?f em"
        using settled_put_row [OF st, of ?f] by simp
      then have "resolve_form env req email_or_string h w2 = (Inr (?f, em), w2)"
        by (rule settled_resolve)
      then have "send env req email_or_string w2 =
                   admit env req email_or_string received_data sorted_keys h ref ?f em w2"
        using send_admits [OF post payload origin h] by simp
      also have "\<dots> = (respond env req em h ref CONFIRMATION_DUPLICATED,
                        w2\<lparr>calls := calls w2 @ [SendConfirmation]\<rparr>)"
        using unconfirmed
        by (simp add: admit_unconfirmed send_confirmation_duplicated log_call_def)
      finally show ?thesis unfolding w2_def .
    qed
    show ?thesis using False a b c d e again by simp
  qed
qed

text \<open>
  The payload \<^verbatim>\<open>{"name": "Jo"}\<close> posted twice to \<^verbatim>\<open>owner@example.com\<close> from
  \<^verbatim>\<open>https://example.com/contact\<close>, starting without any form.
\<close>

theorem unconfirmed_branch_witness:
  "fst (send demo_env (post_from ''https://example.com/contact'') ''owner@example.com'' (world_of [])) =
     \<lparr>status_code = 200,
      body = ConfirmationSentTemplate ''owner@example.com'' ''example.com/contact'' False\<rparr>
   \<and> outbox (snd (send demo_env (post_from ''https://example.com/contact'') ''owner@example.com'' (world_of []))) =
       [ConfirmationMail ''owner@example.com'' ''owner@example.com|example.com/contact'']
   \<and> first_submissions (snd (send demo_env (post_from ''https://example.com/contact'') ''owner@example.com'' (world_of []))) =
       [(''owner@example.com|example.com/contact'', [(''name'', ''Jo'')])]
   \<and> calls (snd (send demo_env (post_from ''https://example.com/contact'') ''owner@example.com'' (world_of []))) =
       [SendConfirmation]
   \<and> send demo_env (post_from ''https://example.com/contact'') ''owner@example.com''
        (snd (send demo_env (post_from ''https://example.com/contact'') ''owner@example.com'' (world_of []))) =
      (\<lparr>status_code = 200,
        body = ConfirmationSentTemplate ''owner@example.com'' ''example.com/contact'' True\<rparr>,
       (snd (send demo_env (post_from ''https://example.com/contact'') ''owner@example.com'' (world_of [])))
         \<lparr>calls := calls (snd (send demo_env (post_from ''https://example.com/contact'')
                     ''owner@example.com'' (world_of []))) @ [SendConfirmation]\<rparr>)"
proof -
  let ?req = "post_from ''https://example.com/contact''"
  have a: "http_method ?req \<noteq> ''GET''" by (simp add: post_from_def)
  have b: "read_payload demo_env ?req = ([(''name'', ''Jo'')], [''name''])"
    by (simp add: read_payload_def demo_defs)
  have c: "resolve_origin demo_env ?req [(''name'', ''Jo'')] =
             Inr (''example.com/contact'', Some ''https://example.com/contact'')"
    by (simp add: resolve_origin_def demo_defs)
  have d: "''example.com/contact'' \<noteq> []" by simp
  have e: "\<not> confirmed jo_form" by (simp add: jo_form_def)
  have f: "\<not> confirm_sent jo_form" by (simp add: jo_form_def)
  have g: "list_all (\<lambda>g. form_id g \<noteq> None) (db (world_of []))" by (simp add: world_of_def)
  have r1: "respond demo_env ?req ''owner@example.com'' ''example.com/contact''
              (Some ''https://example.com/contact'') CONFIRMATION_SENT =
            \<lparr>status_code = 200,
             body = ConfirmationSentTemplate ''owner@example.com'' ''example.com/contact'' False\<rparr>"
    by (simp add: respond_def post_from_def)
  have r2: "respond demo_env ?req ''owner@example.com'' ''example.com/contact''
              (Some ''https://example.com/contact'') CONFIRMATION_DUPLICATED =
            \<lparr>status_code = 200,
             body = ConfirmationSentTemplate ''owner@example.com'' ''example.com/contact'' True\<rparr>"
    by (simp add: respond_def post_from_def)
  have v: "outbox (world_of rows) = []" "first_submissions (world_of rows) = []"
    "calls (world_of rows) = []" "email jo_form = ''owner@example.com''"
    "confirmation_nonce demo_env jo_form = ''owner@example.com|example.com/contact''"
    for rows by (simp_all add: world_of_def jo_form_def demo_env_def str_of_def)
  note t = unconfirmed_branch [OF a b c d jo_resolves e]
  show ?thesis
    using t f g by (simp add: r1 r2 v)
qed

subsection \<open>Answers to the Delivery Engine's outcomes\<close>

text \<open>
  C7, evaluated on the code. When the Delivery Engine answers OVERLIMIT for a confirmed
  form that needs no captcha, the view returns what the engine left of the world and
  answers a document caller with status 402, but a JSON caller with the plain
  \<^verbatim>\<open>jsonify\<close> object, whose status is 200: the JSON branch of lines 264 to 265 passes
  no status, where the document branch of line 267 passes 402.
\<close>

theorem overlimit_response:
  assumes "confirmed f"
    and "\<not> needs_captcha env req f (verify_captcha env received_data req)"
    and "form_send env f received_data sorted_keys ref (log_call FormSend (log_call VerifyCaptcha w)) = (OVERLIMIT, w2)"
  shows "admit env req email_or_string received_data sorted_keys h ref f em w =
           (if wants_json req
            then \<lparr>status_code = 200, body = Json [(''error'', ''form over quota'')]\<rparr>
            else \<lparr>status_code = 402,
                  body = Template ''error.html''
                    [(''title'', ''Form over quota''),
                     (''text'', ''It looks like this form is getting a lot of submissions and ran out of its quota. Try contacting this website through other means or try submitting again later.'')]\<rparr>,
            w2)"
  using assms by (simp add: admit_def respond_def jsonify_def render_template_def)

text \<open>A JSON caller whose submission runs over quota is answered 200.\<close>

theorem overlimit_response_witness:
  "send (env_answering OVERLIMIT) (json_post_from ''https://www.example.com'') ''xk3Dq'' (world_of [sitewide_form]) =
     (\<lparr>status_code = 200, body = Json [(''error'', ''form over quota'')]\<rparr>,
      (world_of [sitewide_form])\<lparr>calls := [VerifyCaptcha, FormSend]\<rparr>)"
proof -
  let ?env = "env_answering OVERLIMIT" and ?req = "json_post_from ''https://www.example.com''"
  let ?w = "world_of [sitewide_form]"
  have a: "confirmed sitewide_form" by (simp add: sitewide_form_def)
  have b: "\<not> needs_captcha ?env ?req sitewide_form (verify_captcha ?env [(''name'', ''Jo'')] ?req)"
    by (simp add: needs_captcha_def json_post_from_def post_from_def)
  have c: "form_send ?env sitewide_form [(''name'', ''Jo'')] [''name''] (Some ''https://www.example.com'')
             (log_call FormSend (log_call VerifyCaptcha ?w)) = (OVERLIMIT, ?w\<lparr>calls := [VerifyCaptcha, FormSend]\<rparr>)"
    by (simp add: env_answering_def log_call_def world_of_def)
  have d: "send ?env ?req ''xk3Dq'' ?w =
             admit ?env ?req ''xk3Dq'' [(''name'', ''Jo'')] [''name''] ''www.example.com''
               (Some ''https://www.example.com'') sitewide_form ''owner@example.com'' ?w"
    by (simp add: send_def read_payload_def resolve_origin_def resolve_form_def get_with_hashid_def
          query_get_def assign_ajax_def host_rejected_def truthy_def str_of_def remove_www_def
          env_answering_def json_post_from_def demo_defs)
  have e: "wants_json ?req" by (simp add: json_post_from_def)
  show ?thesis
    using overlimit_response [OF a b c, of "''xk3Dq''" "''www.example.com''" "''owner@example.com''"] e
    by (simp only: d if_True)
qed

text \<open>
  C8, evaluated on the code. When the Delivery Engine answers REPLYTO_ERROR for a
  confirmed form that needs no captcha, a document caller is answered 400 and a JSON
  caller is answered 500 (line 271), for the same fault in the caller's data.
\<close>

theorem replyto_error_response:
  assumes "confirmed f"
    and "\<not> needs_captcha env req f (verify_captcha env received_data req)"
    and "form_send env f received_data sorted_keys ref (log_call FormSend (log_call VerifyCaptcha w)) =
           (REPLYTO_ERROR address back, w2)"
  shows \<open>admit env req email_or_string received_data sorted_keys h ref f em w =
           (if wants_json req
            then \<lparr>status_code = 500,
                  body = Json [(''error'', ''_replyto or email field has not been sent correctly'')]\<rparr>
            else \<lparr>status_code = 400,
                  body = Template ''error.html''
                    [(''title'', ''Invalid email address''),
                     (''text'', ''You entered <span class="code">'' @ address @ ''</span>. That is an invalid email address. Please correct the form and try to submit again <a href="'' @ back @ ''">here</a>.<p style="font-size: small">This could also be a problem with the form. For example, there could be two fields with <span class="code">_replyto</span> or <span class="code">email</span> name attribute. If you suspect the form is broken, please contact the form owner and ask them to investigate</p>'')]\<rparr>,
            w2)\<close>
  using assms by (simp add: admit_def respond_def jsonerror_def render_template_def)

text \<open>A JSON caller whose reply-to address is malformed is answered 500.\<close>

theorem replyto_error_response_witness:
  "send (env_answering (REPLYTO_ERROR ''jo at example'' ''https://www.example.com''))
        (json_post_from ''https://www.example.com'') ''xk3Dq'' (world_of [sitewide_form]) =
     (\<lparr>status_code = 500,
       body = Json [(''error'', ''_replyto or email field has not been sent correctly'')]\<rparr>,
      (world_of [sitewide_form])\<lparr>calls := [VerifyCaptcha, FormSend]\<rparr>)"
proof -
  let ?env = "env_answering (REPLYTO_ERROR ''jo at example'' ''https://www.example.com'')"
  let ?req = "json_post_from ''https://www.example.com''"
  let ?w = "world_of [sitewide_form]"
  have a: "confirmed sitewide_form" by (simp add: sitewide_form_def)
  have b: "\<not> needs_captcha ?env ?req sitewide_form (verify_captcha ?env [(''name'', ''Jo'')] ?req)"
    by (simp add: needs_captcha_def json_post_from_def post_from_def)
  have c: "form_send ?env sitewide_form [(''name'', ''Jo'')] [''name''] (Some ''https://www.example.com'')
             (log_call FormSend (log_call VerifyCaptcha ?w)) =
           (REPLYTO_ERROR ''jo at example'' ''https://www.example.com'', ?w\<lparr>calls := [VerifyCaptcha, FormSend]\<rparr>)"
    by (simp add: env_answering_def log_call_def world_of_def)
  have d: "send ?env ?req ''xk3Dq'' ?w =
             admit ?env ?req ''xk3Dq'' [(''name'', ''Jo'')] [''name''] ''www.example.com''
               (Some ''https://www.example.com'') sitewide_form ''owner@example.com'' ?w"
    by (simp add: send_def read_payload_def resolve_origin_def resolve_form_def get_with_hashid_def
          query_get_def assign_ajax_def host_rejected_def truthy_def str_of_def remove_www_def
          env_answering_def json_post_from_def demo_defs)
  have e: "wants_json ?req" by (simp add: json_post_from_def)
  show ?thesis
    using replyto_error_response [OF a b c, of "''xk3Dq''" "''www.example.com''" "''owner@example.com''"] e
    by (simp only: d if_True)
qed

subsection \<open>The unconfirm endpoints\<close>

lemma query_get_None: "query_get rows i = None \<longleftrightarrow> Some i \<notin> form_id ` set rows"
  by (force simp: query_get_def find_None_iff image_iff)

lemma query_get_Some: "query_get rows i = Some f \<Longrightarrow> f \<in> set rows \<and> form_id f = Some i"
  by (auto simp: query_get_def find_Some_iff)

lemma map_form_id_put_row: "map form_id (put_row f rows) = map form_id rows"
  by (simp add: put_row_def)

lemma query_get_put_row_None:
  "query_get (put_row f rows) i = None \<longleftrightarrow> query_get rows i = None"
proof -
  have "form_id ` set (put_row f rows) = form_id ` set rows"
    using map_form_id_put_row [of f rows] by (metis set_map)
  then show ?thesis by (simp add: query_get_None)
qed

lemma unconfirm_loop_raises:
  "i \<in> set ids \<Longrightarrow> query_get sess i = None \<Longrightarrow> unconfirm_loop e ids sess = Inl AttributeError"
proof (induction ids arbitrary: sess)
  case Nil
  then show ?case by simp
next
  case (Cons j ids)
  show ?case
  proof (cases "query_get sess j")
    case None
    then show ?thesis by simp
  next
    case (Some f)
    then have "i \<noteq> j" using Cons.prems(2) by auto
    then have mem: "i \<in> set ids" using Cons.prems(1) by simp
    have a: "unconfirm_loop e ids sess = Inl AttributeError"
      using Cons.IH [OF mem Cons.prems(2)] .
    have "query_get (put_row (f\<lparr>confirmed := False\<rparr>) sess) i = None"
      using Cons.prems(2) by (simp add: query_get_put_row_None)
    then have b: "unconfirm_loop e ids (put_row (f\<lparr>confirmed := False\<rparr>) sess) = Inl AttributeError"
      using Cons.IH [OF mem] by blast
    show ?thesis using Some a b by simp
  qed
qed

lemma put_row_distinct:
  assumes "distinct (map form_id rows)" and "query_get rows i = Some f"
  shows "put_row (f\<lparr>confirmed := False\<rparr>) rows =
         map (\<lambda>g. if form_id g = Some i then g\<lparr>confirmed := False\<rparr> else g) rows"
  unfolding put_row_def
proof (rule map_cong [OF refl])
  fix g assume g: "g \<in> set rows"
  have f: "f \<in> set rows" "form_id f = Some i" using assms(2) query_get_Some by auto
  have inj: "inj_on form_id (set rows)" using assms(1) by (simp add: distinct_map)
  show "(if form_id g = form_id (f\<lparr>confirmed := False\<rparr>) then f\<lparr>confirmed := False\<rparr> else g) =
        (if form_id g = Some i then g\<lparr>confirmed := False\<rparr> else g)"
  proof (cases "form_id g = Some i")
    case True
    then have "form_id g = form_id f" using f(2) by simp
    then have "g = f" using inj g f(1) by (rule_tac inj_onD)
    then show ?thesis using f(2) by simp
  next
    case False
    then show ?thesis using f(2) by simp
  qed
qed

lemma unconfirm_rows_step_owner:
  assumes uniq: "\<And>g. g \<in> set sess \<Longrightarrow> form_id g = Some j \<Longrightarrow> g = f"
    and f: "form_id f = Some j" and e: "email f = e"
  shows "unconfirm_rows e ids
           (map (\<lambda>g. if form_id g = Some j then g\<lparr>confirmed := False\<rparr> else g) sess) =
         unconfirm_rows e (j # ids) sess"
  unfolding unconfirm_rows_def map_map
proof (rule map_cong [OF refl])
  fix g assume g: "g \<in> set sess"
  show "((\<lambda>f. if form_id f \<in> Some ` set ids \<and> email f = e then f\<lparr>confirmed := False\<rparr> else f) \<circ>
         (\<lambda>g. if form_id g = Some j then g\<lparr>confirmed := False\<rparr> else g)) g =
        (if form_id g \<in> Some ` set (j # ids) \<and> email g = e then g\<lparr>confirmed := False\<rparr> else g)"
  proof (cases "form_id g = Some j")
    case True
    then have "g = f" using uniq g by blast
    then show ?thesis using f e by simp
  next
    case False
    then have "form_id g \<in> Some ` set (j # ids) \<longleftrightarrow> form_id g \<in> Some ` set ids" by auto
    then show ?thesis using False by simp
  qed
qed

lemma unconfirm_rows_step_other:
  assumes uniq: "\<And>g. g \<in> set sess \<Longrightarrow> form_id g = Some j \<Longrightarrow> g = f"
    and e: "email f \<noteq> e"
  shows "unconfirm_rows e ids sess = unconfirm_rows e (j # ids) sess"
  unfolding unconfirm_rows_def
proof (rule map_cong [OF refl])
  fix g assume g: "g \<in> set sess"
  show "(if form_id g \<in> Some ` set ids \<and> email g = e then g\<lparr>confirmed := False\<rparr> else g) =
        (if form_id g \<in> Some ` set (j # ids) \<and> email g = e then g\<lparr>confirmed := False\<rparr> else g)"
  proof (cases "form_id g = Some j")
    case True
    then have "g = f" using uniq g by blast
    then show ?thesis using e by simp
  next
    case False
    then have "form_id g \<in> Some ` set (j # ids) \<longleftrightarrow> form_id g \<in> Some ` set ids" by auto
    then show ?thesis by simp
  qed
qed

lemma unconfirm_loop_result:
  assumes "distinct (map form_id sess)" and "\<forall>i\<in>set ids. query_get sess i \<noteq> None"
  shows "unconfirm_loop e ids sess = Inr (unconfirm_rows e ids sess)"
  using assms
proof (induction ids arbitrary: sess)
  case Nil
  then show ?case by (simp add: unconfirm_rows_def)
next
  case (Cons j ids)
  from Cons.prems(2) have "query_get sess j \<noteq> None" by simp
  then obtain f where f: "query_get sess j = Some f" by blast
  have fm: "f \<in> set sess" "form_id f = Some j" using f query_get_Some by auto
  have inj: "inj_on form_id (set sess)" using Cons.prems(1) by (simp add: distinct_map)
  have uniq: "g = f" if "g \<in> set sess" "form_id g = Some j" for g
  proof -
    have "form_id g = form_id f" using that(2) fm(2) by simp
    then show ?thesis using inj that(1) fm(1) by (rule_tac inj_onD)
  qed
  have l: "\<forall>i\<in>set ids. query_get sess i \<noteq> None" using Cons.prems(2) by simp
  show ?case
  proof (cases "email f = e")
    case True
    let ?sess = "put_row (f\<lparr>confirmed := False\<rparr>) sess"
    have eq: "?sess = map (\<lambda>g. if form_id g = Some j then g\<lparr>confirmed := False\<rparr> else g) sess"
      using put_row_distinct [OF Cons.prems(1) f] .
    have d: "distinct (map form_id ?sess)" using Cons.prems(1) by (simp add: map_form_id_put_row)
    have l': "\<forall>i\<in>set ids. query_get ?sess i \<noteq> None"
      using l by (simp add: query_get_put_row_None)
    have "unconfirm_rows e ids ?sess = unconfirm_rows e (j # ids) sess"
      unfolding eq by (rule unconfirm_rows_step_owner [OF uniq fm(2) True])
    moreover have "unconfirm_loop e (j # ids) sess = unconfirm_loop e ids ?sess"
      using f True by simp
    ultimately show ?thesis using Cons.IH [OF d l'] by simp
  next
    case False
    have "unconfirm_rows e ids sess = unconfirm_rows e (j # ids) sess"
      by (rule unconfirm_rows_step_other [OF uniq False])
    moreover have "unconfirm_loop e (j # ids) sess = unconfirm_loop e ids sess"
      using f False by simp
    ultimately show ?thesis using Cons.IH [OF Cons.prems(1) l] by simp
  qed
qed

text \<open>
  C9. In the bulk unconfirm, when the session marker is present and some supplied form
  id has no row, the lookup yields nothing, reading the email of the missing form raises,
  and the commit at the end of the loop is never reached: the committed rows are exactly
  as before, also for valid forms listed before the bad id.
\<close>

theorem bulk_unconfirm_missing_row:
  assumes "truthy (session_unconfirming req)"
    and "i \<in> set (form_ids req)"
    and "query_get (db w) i = None"
  shows "unconfirm_multiple req w = (Inl AttributeError, w)"
  using assms by (simp add: unconfirm_multiple_def unconfirm_loop_raises)

text \<open>Form 1 is owned by the marker's address and listed before the unknown id 99.\<close>

theorem bulk_unconfirm_missing_row_witness:
  "unconfirm_multiple (bulk_unconfirm (Some ''a@example.com'') [1, 99])
     (world_of [owner_form 1 ''a@example.com'', owner_form 2 ''b@example.com'']) =
   (Inl AttributeError, world_of [owner_form 1 ''a@example.com'', owner_form 2 ''b@example.com''])"
proof -
  let ?req = "bulk_unconfirm (Some ''a@example.com'') [1, 99]"
  let ?w = "world_of [owner_form 1 ''a@example.com'', owner_form 2 ''b@example.com'']"
  have a: "truthy (session_unconfirming ?req)" by (simp add: bulk_unconfirm_def truthy_def)
  have b: "99 \<in> set (form_ids ?req)" by (simp add: bulk_unconfirm_def)
  have c: "query_get (db ?w) 99 = None" by (simp add: query_get_def world_of_def owner_form_def)
  show ?thesis using bulk_unconfirm_missing_row [OF a b c] .
qed

text \<open>
  The bulk unconfirm on well-formed requests. Without a (non-empty) session marker it answers
  401 and leaves the world as it was. With the marker, when the rows have distinct keys
  and every supplied id has a row, the answer is 200 and \<open>confirmed\<close> is cleared exactly
  in the rows whose id was supplied and whose email is the marker's; every other row,
  and so every supplied form owned by another address, is left as it was, in all its
  fields.
\<close>

lemma bulk_unconfirm_scoped:
  \<open>(\<not> truthy (session_unconfirming req) \<longrightarrow>
      unconfirm_multiple req w =
        (Inr \<lparr>status_code = 401,
              body = Template ''error.html''
                [(''title'', ''Forbidden''),
                 (''text'', ''You're not allowed to unconfirm these forms.'')]\<rparr>,
         w))
   \<and> (truthy (session_unconfirming req) \<and> distinct (map form_id (db w)) \<and>
      (\<forall>i\<in>set (form_ids req). query_get (db w) i \<noteq> None) \<longrightarrow>
      unconfirm_multiple req w =
        (Inr \<lparr>status_code = 200,
              body = Template ''info.html''
                [(''title'', ''Success''),
                 (''text'', ''The selected forms were unconfirmed successfully.'')]\<rparr>,
         w\<lparr>db := map (\<lambda>f. if form_id f \<in> Some ` set (form_ids req) \<and>
                               Some (email f) = session_unconfirming req
                            then f\<lparr>confirmed := False\<rparr> else f) (db w)\<rparr>))\<close>
proof (intro conjI impI)
  assume "\<not> truthy (session_unconfirming req)"
  then show \<open>unconfirm_multiple req w =
        (Inr \<lparr>status_code = 401,
              body = Template ''error.html''
                [(''title'', ''Forbidden''),
                 (''text'', ''You're not allowed to unconfirm these forms.'')]\<rparr>,
         w)\<close>
    by (simp add: unconfirm_multiple_def render_template_def)
next
  assume a: "truthy (session_unconfirming req) \<and> distinct (map form_id (db w)) \<and>
      (\<forall>i\<in>set (form_ids req). query_get (db w) i \<noteq> None)"
  then obtain e where e: "session_unconfirming req = Some e"
    by (cases "session_unconfirming req") (simp_all add: truthy_def)
  have loop: "unconfirm_loop e (form_ids req) (db w) = Inr (unconfirm_rows e (form_ids req) (db w))"
    using a by (intro unconfirm_loop_result) simp_all
  have rows: "unconfirm_rows e (form_ids req) (db w) =
              map (\<lambda>f. if form_id f \<in> Some ` set (form_ids req) \<and> Some (email f) = session_unconfirming req
                        then f\<lparr>confirmed := False\<rparr> else f) (db w)"
    by (simp add: unconfirm_rows_def e)
  have "unconfirm_multiple req w =
          (Inr (render_template ''info.html''
                  [(''title'', ''Success''),
                   (''text'', ''The selected forms were unconfirmed successfully.'')] 200),
           w\<lparr>db := unconfirm_rows e (form_ids req) (db w)\<rparr>)"
    using a by (simp add: unconfirm_multiple_def e str_of_def loop)
  then show "unconfirm_multiple req w =
        (Inr \<lparr>status_code = 200,
              body = Template ''info.html''
                [(''title'', ''Success''),
                 (''text'', ''The selected forms were unconfirmed successfully.'')]\<rparr>,
         w\<lparr>db := map (\<lambda>f. if form_id f \<in> Some ` set (form_ids req) \<and>
                               Some (email f) = session_unconfirming req
                            then f\<lparr>confirmed := False\<rparr> else f) (db w)\<rparr>)"
    by (simp only: rows render_template_def)
qed

text \<open>
  Both supplied forms exist; only the one owned by the marker's address is unconfirmed.
  Without the marker the answer is 401 and nothing changes.
\<close>

lemma bulk_unconfirm_scoped_example:
  \<open>unconfirm_multiple (bulk_unconfirm (Some ''a@example.com'') [1, 2])
     (world_of [owner_form 1 ''a@example.com'', owner_form 2 ''b@example.com''])
   = (Inr \<lparr>status_code = 200,
           body = Template ''info.html''
                    [(''title'', ''Success''),
                     (''text'', ''The selected forms were unconfirmed successfully.'')]\<rparr>,
      world_of [(owner_form 1 ''a@example.com'')\<lparr>confirmed := False\<rparr>, owner_form 2 ''b@example.com''])
   \<and> unconfirm_multiple (bulk_unconfirm None [1, 2])
        (world_of [owner_form 1 ''a@example.com'', owner_form 2 ''b@example.com'']) =
      (Inr \<lparr>status_code = 401,
            body = Template ''error.html''
                    [(''title'', ''Forbidden''),
                     (''text'', ''You're not allowed to unconfirm these forms.'')]\<rparr>,
       world_of [owner_form 1 ''a@example.com'', owner_form 2 ''b@example.com''])\<close>
proof -
  let ?req = "bulk_unconfirm (Some ''a@example.com'') [1, 2]"
  let ?w = "world_of [owner_form 1 ''a@example.com'', owner_form 2 ''b@example.com'']"
  have a: "truthy (session_unconfirming ?req)" by (simp add: bulk_unconfirm_def truthy_def)
  have b: "distinct (map form_id (db ?w))" by (simp add: world_of_def owner_form_def)
  have c: "\<forall>i\<in>set (form_ids ?req). query_get (db ?w) i \<noteq> None"
    by (simp add: bulk_unconfirm_def query_get_def world_of_def owner_form_def)
  have n: "\<not> truthy (session_unconfirming (bulk_unconfirm None [1, 2]))"
    by (simp add: bulk_unconfirm_def truthy_def)
  have rows: "?w\<lparr>db := map (\<lambda>f. if form_id f \<in> Some ` set (form_ids ?req) \<and>
                               Some (email f) = session_unconfirming ?req
                            then f\<lparr>confirmed := False\<rparr> else f) (db ?w)\<rparr> =
        world_of [(owner_form 1 ''a@example.com'')\<lparr>confirmed := False\<rparr>, owner_form 2 ''b@example.com'']"
    by (simp add: bulk_unconfirm_def world_of_def owner_form_def)
  note one = bulk_unconfirm_scoped [of ?req ?w, THEN conjunct2, rule_format, OF conjI [OF a conjI [OF b c]]]
  note two = bulk_unconfirm_scoped [of "bulk_unconfirm None [1, 2]" ?w, THEN conjunct1, rule_format, OF n]
  show ?thesis
    using one two by (simp only: rows simp_thms)
qed

text \<open>
  C6, evaluated on the code. With the marker present, form 1 is supplied and owned by the
  marker's address, so its \<open>confirmed\<close> flag is to be cleared; the request also names
  id 7, which has no row. Reading the email of the missing form raises at line 462, the
  commit of line 465 is not reached, and form 1 stays confirmed.
\<close>

theorem bulk_unconfirm_unknown_id_raises:
  "unconfirm_multiple (bulk_unconfirm (Some ''a@example.com'') [1, 7]) (world_of [owner_form 1 ''a@example.com''])
     = (Inl AttributeError, world_of [owner_form 1 ''a@example.com''])
   \<and> email (owner_form 1 ''a@example.com'') = ''a@example.com''
   \<and> confirmed (owner_form 1 ''a@example.com'')"
  by (simp add: unconfirm_multiple_def bulk_unconfirm_def truthy_def str_of_def query_get_def
        world_of_def owner_form_def put_row_def)

text \<open>
  C10. A request to the request-unconfirm endpoint whose user agent names no browser is
  answered at once with an empty body and status 200. The world is returned as it was
  (no mail is sent), and the answer depends neither on the rows nor on the form id,
  so no lookup takes part in it.
\<close>

theorem request_unconfirm_repels_bots:
  assumes "\<not> truthy (user_agent_browser req)"
  shows "request_unconfirm_form env req i w = (Inr \<lparr>status_code = 200, body = Plain []\<rparr>, w)"
  using assms by (simp add: request_unconfirm_form_def)

text \<open>The same answer for the id of an existing form and for an id without a row.\<close>

theorem request_unconfirm_repels_bots_witness:
  "request_unconfirm_form demo_env bot_request 1 (world_of [sitewide_form]) =
     (Inr \<lparr>status_code = 200, body = Plain []\<rparr>, world_of [sitewide_form])
   \<and> request_unconfirm_form demo_env bot_request 5 (world_of [sitewide_form]) =
     (Inr \<lparr>status_code = 200, body = Plain []\<rparr>, world_of [sitewide_form])
   \<and> query_get (db (world_of [sitewide_form])) 5 = None"
proof -
  have a: "\<not> truthy (user_agent_browser bot_request)" by (simp add: bot_request_def truthy_def)
  have b: "query_get (db (world_of [sitewide_form])) 5 = None"
    by (simp add: query_get_def world_of_def sitewide_form_def)
  show ?thesis
    using request_unconfirm_repels_bots [OF a, of demo_env 1 "world_of [sitewide_form]"]
          request_unconfirm_repels_bots [OF a, of demo_env 5 "world_of [sitewide_form]"] b
    by (simp only: simp_thms)
qed


end
